theory Spec2Isabelle
  imports Main "HOL-Library.State_Monad"
begin

section \<open>Values read from manifest files\<close>

text \<open>
  \<^verbatim>\<open>json.load\<close> can return any JSON value, not only an object, so the parsed
  \<^verbatim>\<open>package.json\<close> and \<^verbatim>\<open>composer.json\<close> are modelled as JSON values. An object is
  the parsed Python dict in insertion order, its keys distinct. Numbers are only ever
  tested for truth and compared with strings, so an integer payload is enough.
\<close>

datatype json =
    JNull
  | JBool bool
  | JNum int
  | JStr string
  | JArr "json list"
  | JObj "(string \<times> json) list"

text \<open>The exceptions the modelled code can raise.\<close>

datatype error =
    AttributeError
  | TypeError
  | ValueError string
  | OSError string

text \<open>Python truth value of a JSON value (\<^verbatim>\<open>if x:\<close>).\<close>

fun truthy :: "json \<Rightarrow> bool" where
  "truthy JNull = False"
| "truthy (JBool b) = b"
| "truthy (JNum n) = (n \<noteq> 0)"
| "truthy (JStr s) = (s \<noteq> [])"
| "truthy (JArr xs) = (xs \<noteq> [])"
| "truthy (JObj kvs) = (kvs \<noteq> [])"

text \<open>Truth value of an \<^verbatim>\<open>Optional\<close> result of a reader: \<^verbatim>\<open>None\<close> is false.\<close>

definition truthy_json :: "json option \<Rightarrow> bool" where
  "truthy_json v = (case v of None \<Rightarrow> False | Some j \<Rightarrow> truthy j)"

definition truthy_str :: "string option \<Rightarrow> bool" where
  "truthy_str v = (case v of None \<Rightarrow> False | Some s \<Rightarrow> s \<noteq> [])"

definition truthy_lines :: "string list option \<Rightarrow> bool" where
  "truthy_lines v = (case v of None \<Rightarrow> False | Some ls \<Rightarrow> ls \<noteq> [])"

text \<open>\<^verbatim>\<open>x.get(key, default)\<close>: only a dict has \<^verbatim>\<open>get\<close>.\<close>

fun py_get :: "json \<Rightarrow> string \<Rightarrow> json \<Rightarrow> error + json" where
  "py_get (JObj kvs) k dflt = (case map_of kvs k of None \<Rightarrow> Inr dflt | Some v \<Rightarrow> Inr v)"
| "py_get _ k dflt = Inl AttributeError"

text \<open>
  The keys of \<^verbatim>\<open>{**a, **b}\<close>: both operands must be mappings. Only the keys of the
  merged dict are ever looked at.
\<close>

fun dict_merge_keys :: "json \<Rightarrow> json \<Rightarrow> error + string list" where
  "dict_merge_keys (JObj a) (JObj b) = Inr (map fst a @ map fst b)"
| "dict_merge_keys _ _ = Inl TypeError"

text \<open>\<^verbatim>\<open>sub in s\<close> on strings: \<^verbatim>\<open>sub\<close> occurs in \<^verbatim>\<open>s\<close> as a contiguous run.\<close>

fun starts_with :: "string \<Rightarrow> string \<Rightarrow> bool" where
  "starts_with s [] = True"
| "starts_with [] (p # ps) = False"
| "starts_with (c # cs) (p # ps) = (c = p \<and> starts_with cs ps)"

fun str_contains :: "string \<Rightarrow> string \<Rightarrow> bool" where
  "str_contains [] sub = (sub = [])"
| "str_contains (c # cs) sub = (starts_with (c # cs) sub \<or> str_contains cs sub)"

text \<open>
  \<^verbatim>\<open>'express' in x\<close> for a JSON value \<^verbatim>\<open>x\<close>: key membership in a dict, element
  equality in a list, substring in a string, and a \<^verbatim>\<open>TypeError\<close> otherwise.
\<close>

fun py_in :: "string \<Rightarrow> json \<Rightarrow> error + bool" where
  "py_in k (JObj kvs) = Inr (k \<in> set (map fst kvs))"
| "py_in k (JArr xs) = Inr (JStr k \<in> set xs)"
| "py_in k (JStr s) = Inr (str_contains s k)"
| "py_in k _ = Inl TypeError"

text \<open>\<^verbatim>\<open>str.lower\<close> on the ASCII letters.\<close>

definition char_lower :: "char \<Rightarrow> char" where
  "char_lower c =
     (if 65 \<le> (of_char c :: nat) \<and> (of_char c :: nat) \<le> 90
      then char_of ((of_char c :: nat) + 32) else c)"

definition str_lower :: "string \<Rightarrow> string" where
  "str_lower s = map char_lower s"

section \<open>The project tree as the detector reads it\<close>

text \<open>
  The detector touches the file system only through its readers and through
  \<^verbatim>\<open>_file_exists\<close>. A tree is what those calls answer: the value each reader
  returns (\<^verbatim>\<open>None\<close> when the file is missing or unparsable), the text of the two
  files the framework probes open themselves, and for every pattern whether
  \<^verbatim>\<open>Path(project_path).glob(pattern)\<close> finds an entry.
\<close>

record tree =
  package_json :: "json option"
  requirements_txt :: "string list option"
  pom_xml :: "string option"
  go_mod :: "string option"
  composer_json :: "json option"
  csproj :: "string option"
  pyproject_toml :: "string option"
  build_gradle :: "string option"
  glob :: "string \<Rightarrow> bool"

definition file_exists :: "tree \<Rightarrow> string \<Rightarrow> bool" where
  "file_exists t pattern = glob t pattern"

section \<open>ProjectDetector\<close>

record detection =
  language :: string
  framework :: "string option"
  ptype :: string

record structure_flags =
  monorepo :: bool
  microservices :: bool
  layered :: bool
  modular :: bool
  dockerized :: bool

record profile = detection +
  path :: string
  struct :: structure_flags
  complexity :: string
  dependencies :: "string list"
  testing :: bool
  build_tools :: "string list"
  deployment :: "string list"

subsection \<open>Framework probes\<close>

definition detect_python_framework :: "tree \<Rightarrow> string" where
  "detect_python_framework t =
     (if file_exists t ''manage.py'' then ''django''
      else if file_exists t ''app.py'' then ''flask''
      else if file_exists t ''main.py'' then ''fastapi''
      else (case pyproject_toml t of
              None \<Rightarrow> ''unknown''
            | Some pyproject_content \<Rightarrow>
                if str_contains (str_lower pyproject_content) ''django''
                   \<or> str_contains pyproject_content (''name = '' @ [CHR 0x22] @ ''Django'' @ [CHR 0x22])
                then ''django''
                else if str_contains (str_lower pyproject_content) ''flask'' then ''flask''
                else if str_contains (str_lower pyproject_content) ''fastapi'' then ''fastapi''
                else ''unknown''))"

definition detect_java_framework :: "tree \<Rightarrow> string" where
  "detect_java_framework t =
     (if file_exists t ''src/main/java/**/Application.java'' then ''spring-boot''
      else (case build_gradle t of
              None \<Rightarrow> ''unknown''
            | Some gradle_content \<Rightarrow>
                if str_contains (str_lower gradle_content) ''spring-boot''
                   \<or> str_contains (str_lower gradle_content) ''springframework''
                then ''spring-boot''
                else ''unknown''))"

definition detect_go_framework :: "tree \<Rightarrow> string" where
  "detect_go_framework t =
     (case go_mod t of
        None \<Rightarrow> ''unknown''
      | Some gm \<Rightarrow>
          if gm = [] then ''unknown''
          else if str_contains gm ''gin-gonic/gin'' then ''gin''
          else if str_contains gm ''labstack/echo'' then ''echo''
          else if str_contains gm ''gofiber/fiber'' then ''fiber''
          else ''unknown'')"

definition detect_csharp_framework :: "tree \<Rightarrow> string" where
  "detect_csharp_framework t =
     (if file_exists t ''Startup.cs'' then ''aspnet-core'' else ''unknown'')"

text \<open>
  The PHP probe is outside any \<^verbatim>\<open>try\<close>: a \<^verbatim>\<open>composer.json\<close> that parses to a
  non-empty value other than an object makes \<^verbatim>\<open>.get\<close> raise.
\<close>

definition detect_php_framework :: "tree \<Rightarrow> error + string" where
  "detect_php_framework t =
     (if file_exists t ''artisan'' then Inr ''laravel''
      else if file_exists t ''composer.json'' then
        (case composer_json t of
           None \<Rightarrow> Inr ''unknown''
         | Some cj \<Rightarrow>
             if \<not> truthy cj then Inr ''unknown''
             else (case py_get cj ''require'' (JObj []) of
                     Inl e \<Rightarrow> Inl e
                   | Inr req \<Rightarrow>
                       (case py_in ''symfony/symfony'' req of
                          Inl e \<Rightarrow> Inl e
                        | Inr b \<Rightarrow> if b then Inr ''symfony'' else Inr ''unknown'')))
      else Inr ''unknown'')"

subsection \<open>Language and framework\<close>

text \<open>
  The branch taken when \<^verbatim>\<open>package.json\<close> parsed to a true value. \<^verbatim>\<open>None\<close> means
  that no rule of the branch returned and control falls through to the other
  manifests.
\<close>

definition classify_package_json :: "json \<Rightarrow> error + detection option" where
  "classify_package_json pj =
     (case py_get pj ''dependencies'' (JObj []) of
        Inl e \<Rightarrow> Inl e
      | Inr deps \<Rightarrow>
     (case py_get pj ''devDependencies'' (JObj []) of
        Inl e \<Rightarrow> Inl e
      | Inr dev_dependencies \<Rightarrow>
     (case dict_merge_keys deps dev_dependencies of
        Inl e \<Rightarrow> Inl e
      | Inr all_deps \<Rightarrow>
          if ''typescript'' \<in> set all_deps \<or> ''ts-node'' \<in> set all_deps then
            Inr (Some \<lparr>language = ''typescript'', framework = Some ''typescript'',
                       ptype = ''backend''\<rparr>)
          else if ''react-native'' \<in> set all_deps then
            Inr (Some \<lparr>language = ''javascript'', framework = Some ''react-native'',
                       ptype = ''mobile''\<rparr>)
          else if ''react'' \<in> set all_deps \<or> ''react-dom'' \<in> set all_deps then
            Inr (Some \<lparr>language = ''javascript'', framework = Some ''react'',
                       ptype = ''frontend''\<rparr>)
          else if ''vue'' \<in> set all_deps \<or> ''@vue/cli-service'' \<in> set all_deps then
            Inr (Some \<lparr>language = ''javascript'', framework = Some ''vue'',
                       ptype = ''frontend''\<rparr>)
          else if ''@angular/core'' \<in> set all_deps \<or> ''@angular/cli'' \<in> set all_deps then
            Inr (Some \<lparr>language = ''typescript'', framework = Some ''angular'',
                       ptype = ''frontend''\<rparr>)
          else if ''express'' \<in> set all_deps \<or> ''koa'' \<in> set all_deps
                  \<or> ''fastify'' \<in> set all_deps \<or> ''nestjs'' \<in> set all_deps then
            Inr (Some \<lparr>language = ''javascript'', framework = Some ''nodejs'',
                       ptype = ''backend''\<rparr>)
          else
            (case py_get pj ''name'' JNull of
               Inl e \<Rightarrow> Inl e
             | Inr nm \<Rightarrow>
                 if nm = JStr ''express'' then
                   Inr (Some \<lparr>language = ''javascript'', framework = Some ''express'',
                              ptype = ''backend''\<rparr>)
                 else
                   (case py_get pj ''keywords'' (JArr []) of
                      Inl e \<Rightarrow> Inl e
                    | Inr kws \<Rightarrow>
                        (case py_in ''express'' kws of
                           Inl e \<Rightarrow> Inl e
                         | Inr b \<Rightarrow>
                             if b then
                               Inr (Some \<lparr>language = ''javascript'',
                                          framework = Some ''express'', ptype = ''backend''\<rparr>)
                             else Inr None))))))"

text \<open>The manifests checked after the \<^verbatim>\<open>package.json\<close> branch, in the order of the code.\<close>

definition detect_other_manifests :: "tree \<Rightarrow> error + detection" where
  "detect_other_manifests t =
     (if truthy_lines (requirements_txt t) \<or> file_exists t ''requirements.txt''
         \<or> file_exists t ''pyproject.toml'' then
        Inr \<lparr>language = ''python'', framework = Some (detect_python_framework t),
             ptype = ''backend''\<rparr>
      else if truthy_str (pom_xml t) \<or> file_exists t ''pom.xml''
              \<or> file_exists t ''build.gradle'' then
        Inr \<lparr>language = ''java'', framework = Some (detect_java_framework t),
             ptype = ''backend''\<rparr>
      else if truthy_str (go_mod t) \<or> file_exists t ''go.mod'' then
        Inr \<lparr>language = ''go'', framework = Some (detect_go_framework t),
             ptype = ''backend''\<rparr>
      else if file_exists t ''Makefile'' \<or> file_exists t ''CMakeLists.txt''
              \<or> file_exists t ''configure'' \<or> file_exists t ''*.c''
              \<or> file_exists t ''*.h'' then
        Inr \<lparr>language = ''c'', framework = Some ''unknown'', ptype = ''backend''\<rparr>
      else if truthy_str (csproj t) \<or> file_exists t ''*.csproj'' then
        Inr \<lparr>language = ''csharp'', framework = Some (detect_csharp_framework t),
             ptype = ''backend''\<rparr>
      else if truthy_json (composer_json t) \<or> file_exists t ''composer.json'' then
        (case detect_php_framework t of
           Inl e \<Rightarrow> Inl e
         | Inr fw \<Rightarrow> Inr \<lparr>language = ''php'', framework = Some fw, ptype = ''backend''\<rparr>)
      else
        Inr \<lparr>language = ''unknown'', framework = None, ptype = ''unknown''\<rparr>)"

definition detect_language_and_framework :: "tree \<Rightarrow> error + detection" where
  "detect_language_and_framework t =
     (case (if truthy_json (package_json t)
            then classify_package_json (the (package_json t)) else Inr None) of
        Inl e \<Rightarrow> Inl e
      | Inr (Some d) \<Rightarrow> Inr d
      | Inr None \<Rightarrow> detect_other_manifests t)"

subsection \<open>Structure, complexity, testing, tools\<close>

definition analyze_structure :: "tree \<Rightarrow> string \<Rightarrow> structure_flags" where
  "analyze_structure t lang =
     (let s0 = \<lparr>monorepo = False, microservices = False, layered = False,
                modular = False, dockerized = False\<rparr>;
          s1 = (if file_exists t ''lerna.json'' \<or> file_exists t ''nx.json''
                   \<or> file_exists t ''rush.json''
                then s0\<lparr>monorepo := True\<rparr> else s0);
          s2 = (if file_exists t ''services'' \<or> file_exists t ''microservices''
                then s1\<lparr>microservices := True\<rparr> else s1);
          s3 = (if file_exists t ''Dockerfile'' \<or> file_exists t ''docker-compose.yml''
                   \<or> file_exists t ''docker-compose.yaml''
                then s2\<lparr>dockerized := True\<rparr> else s2)
      in s3)"

definition assess_complexity :: "profile \<Rightarrow> string" where
  "assess_complexity project_info =
     (let score0 = (0::int);
          score1 = (if length (dependencies project_info) > 50 then score0 + 2
                    else if length (dependencies project_info) > 20 then score0 + 1
                    else score0);
          score2 = (if monorepo (struct project_info) then score1 + 2 else score1);
          score3 = (if microservices (struct project_info) then score2 + 2 else score2);
          score4 = (if \<not> testing project_info then score3 + 1 else score3)
      in if score4 \<ge> 5 then ''high''
         else if score4 \<ge> 3 then ''medium''
         else ''low'')"

definition test_patterns :: "string \<Rightarrow> string list" where
  "test_patterns lang =
     (if lang = ''javascript'' then
        [''**/*.test.js'', ''**/*.spec.js'', ''**/tests/**'', ''**/__tests__/**'']
      else if lang = ''python'' then [''**/*_test.py'', ''**/test_*.py'', ''**/tests/**'']
      else if lang = ''java'' then [''**/*Test.java'', ''**/test/**'']
      else if lang = ''go'' then [''**/*_test.go'', ''**/test/**'']
      else if lang = ''csharp'' then [''**/*Test.cs'', ''**/Tests/**'']
      else [''**/*.test.js'', ''**/*.spec.js'', ''**/tests/**'', ''**/__tests__/**''])"

fun any_pattern_exists :: "tree \<Rightarrow> string list \<Rightarrow> bool" where
  "any_pattern_exists t [] = False"
| "any_pattern_exists t (pattern # patterns) =
     (if file_exists t pattern then True else any_pattern_exists t patterns)"

definition detect_testing :: "tree \<Rightarrow> string \<Rightarrow> bool" where
  "detect_testing t lang = any_pattern_exists t (test_patterns lang)"

definition detect_build_tools :: "tree \<Rightarrow> string list" where
  "detect_build_tools t =
     (if file_exists t ''webpack.config.js'' then [''webpack''] else [])
     @ (if file_exists t ''vite.config.js'' then [''vite''] else [])
     @ (if file_exists t ''Dockerfile'' then [''docker''] else [])"

definition detect_deployment :: "tree \<Rightarrow> string list" where
  "detect_deployment t =
     (if file_exists t ''Dockerfile'' then [''docker''] else [])
     @ (if file_exists t ''k8s'' \<or> file_exists t ''kubernetes'' then [''kubernetes''] else [])"

subsection \<open>The profile as a function of the tree\<close>

text \<open>
  What \<^verbatim>\<open>detect\<close> computes inside its \<^verbatim>\<open>try\<close>: the dict \<^verbatim>\<open>project_info\<close> starts from
  its defaults, takes the three keys of the detection, and is then updated key by key in
  the order of the code. Each later call reads the dict as it is at that moment.
\<close>

definition detect_body :: "string \<Rightarrow> tree \<Rightarrow> error + profile" where
  "detect_body project_path t =
     (case detect_language_and_framework t of
        Inl e \<Rightarrow> Inl e
      | Inr d \<Rightarrow>
          (let info0 = \<lparr>language = language d, framework = framework d, ptype = ptype d,
                        path = project_path,
                        struct = analyze_structure t (language d),
                        complexity = ''low'', dependencies = [], testing = False,
                        build_tools = [], deployment = []\<rparr>;
               info1 = info0\<lparr>complexity := assess_complexity info0\<rparr>;
               info2 = info1\<lparr>testing := detect_testing t (language info1)\<rparr>;
               info3 = info2\<lparr>build_tools := detect_build_tools t\<rparr>;
               info4 = info3\<lparr>deployment := detect_deployment t\<rparr>
           in Inr info4))"

subsection \<open>The detector as a program\<close>

text \<open>
  What persists between two runs: the tree on disk and the lines printed so far.
\<close>

datatype event = DetectionFailed error

record world =
  wtree :: tree
  console :: "event list"

text \<open>
  A method of the detector as a program on the world: it is run on a world and gives
  its value and the world it leaves. The detector object itself has no attributes
  (\<^verbatim>\<open>__init__\<close> is \<^verbatim>\<open>pass\<close> and no method assigns to \<^verbatim>\<open>self\<close>), so the world is
  the tree and the console.
\<close>

type_synonym 'a io = "(world, 'a) state"

text \<open>
  The calls that reach outside: the six readers, the two files the probes open, the
  pattern query and \<^verbatim>\<open>print\<close>. A reader opens its file for reading and a query lists
  the directory; neither changes the tree.
\<close>

definition read_package_json :: "json option io" where
  "read_package_json = State (\<lambda>w. (package_json (wtree w), w))"

definition read_requirements_txt :: "string list option io" where
  "read_requirements_txt = State (\<lambda>w. (requirements_txt (wtree w), w))"

definition read_pom_xml :: "string option io" where
  "read_pom_xml = State (\<lambda>w. (pom_xml (wtree w), w))"

definition read_go_mod :: "string option io" where
  "read_go_mod = State (\<lambda>w. (go_mod (wtree w), w))"

definition read_composer_json :: "json option io" where
  "read_composer_json = State (\<lambda>w. (composer_json (wtree w), w))"

definition read_csproj :: "string option io" where
  "read_csproj = State (\<lambda>w. (csproj (wtree w), w))"

definition open_pyproject_toml :: "string option io" where
  "open_pyproject_toml = State (\<lambda>w. (pyproject_toml (wtree w), w))"

definition open_build_gradle :: "string option io" where
  "open_build_gradle = State (\<lambda>w. (build_gradle (wtree w), w))"

definition file_exists_io :: "string \<Rightarrow> bool io" where
  "file_exists_io pattern = State (\<lambda>w. (glob (wtree w) pattern, w))"

definition print_event :: "event \<Rightarrow> unit io" where
  "print_event e = State (\<lambda>w. ((), w\<lparr>console := console w @ [e]\<rparr>))"

text \<open>\<^verbatim>\<open>a or b\<close> on two calls: the second is made only when the first is false.\<close>

definition or_else :: "bool io \<Rightarrow> bool io \<Rightarrow> bool io" where
  "or_else a b = do { x \<leftarrow> a; if x then State_Monad.return True else b }"

text \<open>The methods, call by call in the order of the code.\<close>

definition detect_python_framework_io :: "string io" where
  "detect_python_framework_io = do {
     manage \<leftarrow> file_exists_io ''manage.py'';
     if manage then State_Monad.return ''django''
     else do {
       app \<leftarrow> file_exists_io ''app.py'';
       if app then State_Monad.return ''flask''
       else do {
         main_py \<leftarrow> file_exists_io ''main.py'';
         if main_py then State_Monad.return ''fastapi''
         else do {
           opened \<leftarrow> open_pyproject_toml;
           State_Monad.return
             (case opened of
                None \<Rightarrow> ''unknown''
              | Some pyproject_content \<Rightarrow>
                  if str_contains (str_lower pyproject_content) ''django''
                     \<or> str_contains pyproject_content (''name = '' @ [CHR 0x22] @ ''Django'' @ [CHR 0x22])
                  then ''django''
                  else if str_contains (str_lower pyproject_content) ''flask'' then ''flask''
                  else if str_contains (str_lower pyproject_content) ''fastapi'' then ''fastapi''
                  else ''unknown'')
         }
       }
     }
   }"


definition detect_java_framework_io :: "string io" where
  "detect_java_framework_io = do {
     application \<leftarrow> file_exists_io ''src/main/java/**/Application.java'';
     if application then State_Monad.return ''spring-boot''
     else do {
       opened \<leftarrow> open_build_gradle;
       State_Monad.return
         (case opened of
            None \<Rightarrow> ''unknown''
          | Some gradle_content \<Rightarrow>
              if str_contains (str_lower gradle_content) ''spring-boot''
                 \<or> str_contains (str_lower gradle_content) ''springframework''
              then ''spring-boot''
              else ''unknown'')
     }
   }"

definition detect_go_framework_io :: "string io" where
  "detect_go_framework_io = do {
     go_mod_text \<leftarrow> read_go_mod;
     State_Monad.return
       (case go_mod_text of
          None \<Rightarrow> ''unknown''
        | Some gm \<Rightarrow>
            if gm = [] then ''unknown''
            else if str_contains gm ''gin-gonic/gin'' then ''gin''
            else if str_contains gm ''labstack/echo'' then ''echo''
            else if str_contains gm ''gofiber/fiber'' then ''fiber''
            else ''unknown'')
   }"

definition detect_csharp_framework_io :: "string io" where
  "detect_csharp_framework_io = do {
     startup \<leftarrow> file_exists_io ''Startup.cs'';
     State_Monad.return (if startup then ''aspnet-core'' else ''unknown'')
   }"

definition detect_php_framework_io :: "(error + string) io" where
  "detect_php_framework_io = do {
     artisan \<leftarrow> file_exists_io ''artisan'';
     if artisan then State_Monad.return (Inr ''laravel'')
     else do {
       composer \<leftarrow> file_exists_io ''composer.json'';
       if composer then do {
         parsed \<leftarrow> read_composer_json;
         State_Monad.return
           (case parsed of
              None \<Rightarrow> Inr ''unknown''
            | Some cj \<Rightarrow>
                if \<not> truthy cj then Inr ''unknown''
                else (case py_get cj ''require'' (JObj []) of
                        Inl e \<Rightarrow> Inl e
                      | Inr req \<Rightarrow>
                          (case py_in ''symfony/symfony'' req of
                             Inl e \<Rightarrow> Inl e
                           | Inr b \<Rightarrow> if b then Inr ''symfony'' else Inr ''unknown'')))
       }
       else State_Monad.return (Inr ''unknown'')
     }
   }"

text \<open>The dict \<^verbatim>\<open>files\<close> that \<^verbatim>\<open>detect\<close> passes to the classifier.\<close>

record manifest_files =
  files_package_json :: "json option"
  files_requirements_txt :: "string list option"
  files_pom_xml :: "string option"
  files_go_mod :: "string option"
  files_composer_json :: "json option"
  files_csproj :: "string option"

definition detect_other_manifests_io :: "manifest_files \<Rightarrow> (error + detection) io" where
  "detect_other_manifests_io files = do {
     is_python \<leftarrow> or_else (State_Monad.return (truthy_lines (files_requirements_txt files)))
                   (or_else (file_exists_io ''requirements.txt'')
                            (file_exists_io ''pyproject.toml''));
     if is_python then do {
       fw \<leftarrow> detect_python_framework_io;
       State_Monad.return
         (Inr \<lparr>language = ''python'', framework = Some fw, ptype = ''backend''\<rparr>)
     }
     else do {
     is_java \<leftarrow> or_else (State_Monad.return (truthy_str (files_pom_xml files)))
                 (or_else (file_exists_io ''pom.xml'') (file_exists_io ''build.gradle''));
     if is_java then do {
       fw \<leftarrow> detect_java_framework_io;
       State_Monad.return
         (Inr \<lparr>language = ''java'', framework = Some fw, ptype = ''backend''\<rparr>)
     }
     else do {
     is_go \<leftarrow> or_else (State_Monad.return (truthy_str (files_go_mod files)))
               (file_exists_io ''go.mod'');
     if is_go then do {
       fw \<leftarrow> detect_go_framework_io;
       State_Monad.return
         (Inr \<lparr>language = ''go'', framework = Some fw, ptype = ''backend''\<rparr>)
     }
     else do {
     is_c \<leftarrow> or_else (file_exists_io ''Makefile'')
              (or_else (file_exists_io ''CMakeLists.txt'')
              (or_else (file_exists_io ''configure'')
              (or_else (file_exists_io ''*.c'') (file_exists_io ''*.h''))));
     if is_c then
       State_Monad.return
         (Inr \<lparr>language = ''c'', framework = Some ''unknown'', ptype = ''backend''\<rparr>)
     else do {
     is_csharp \<leftarrow> or_else (State_Monad.return (truthy_str (files_csproj files)))
                   (file_exists_io ''*.csproj'');
     if is_csharp then do {
       fw \<leftarrow> detect_csharp_framework_io;
       State_Monad.return
         (Inr \<lparr>language = ''csharp'', framework = Some fw, ptype = ''backend''\<rparr>)
     }
     else do {
     is_php \<leftarrow> or_else (State_Monad.return (truthy_json (files_composer_json files)))
                (file_exists_io ''composer.json'');
     if is_php then do {
       probed \<leftarrow> detect_php_framework_io;
       State_Monad.return
         (case probed of
            Inl e \<Rightarrow> Inl e
          | Inr fw \<Rightarrow> Inr \<lparr>language = ''php'', framework = Some fw, ptype = ''backend''\<rparr>)
     }
     else
       State_Monad.return
         (Inr \<lparr>language = ''unknown'', framework = None, ptype = ''unknown''\<rparr>)
     }}}}}
   }"

definition detect_language_and_framework_io :: "manifest_files \<Rightarrow> (error + detection) io" where
  "detect_language_and_framework_io files =
     (case (if truthy_json (files_package_json files)
            then classify_package_json (the (files_package_json files)) else Inr None) of
        Inl e \<Rightarrow> State_Monad.return (Inl e)
      | Inr (Some d) \<Rightarrow> State_Monad.return (Inr d)
      | Inr None \<Rightarrow> detect_other_manifests_io files)"

definition analyze_structure_io :: "string \<Rightarrow> structure_flags io" where
  "analyze_structure_io lang = do {
     let s0 = \<lparr>monorepo = False, microservices = False, layered = False,
               modular = False, dockerized = False\<rparr>;
     is_monorepo \<leftarrow> or_else (file_exists_io ''lerna.json'')
                     (or_else (file_exists_io ''nx.json'') (file_exists_io ''rush.json''));
     let s1 = (if is_monorepo then s0\<lparr>monorepo := True\<rparr> else s0);
     is_microservices \<leftarrow> or_else (file_exists_io ''services'')
                                  (file_exists_io ''microservices'');
     let s2 = (if is_microservices then s1\<lparr>microservices := True\<rparr> else s1);
     is_dockerized \<leftarrow> or_else (file_exists_io ''Dockerfile'')
                       (or_else (file_exists_io ''docker-compose.yml'')
                                (file_exists_io ''docker-compose.yaml''));
     let s3 = (if is_dockerized then s2\<lparr>dockerized := True\<rparr> else s2);
     State_Monad.return s3
   }"

fun any_pattern_exists_io :: "string list \<Rightarrow> bool io" where
  "any_pattern_exists_io [] = State_Monad.return False"
| "any_pattern_exists_io (pattern # patterns) = do {
     found \<leftarrow> file_exists_io pattern;
     if found then State_Monad.return True else any_pattern_exists_io patterns
   }"

definition detect_testing_io :: "string \<Rightarrow> bool io" where
  "detect_testing_io lang = any_pattern_exists_io (test_patterns lang)"

definition detect_build_tools_io :: "string list io" where
  "detect_build_tools_io = do {
     webpack \<leftarrow> file_exists_io ''webpack.config.js'';
     let tools1 = (if webpack then [''webpack''] else []);
     vite \<leftarrow> file_exists_io ''vite.config.js'';
     let tools2 = tools1 @ (if vite then [''vite''] else []);
     dockerfile \<leftarrow> file_exists_io ''Dockerfile'';
     State_Monad.return (tools2 @ (if dockerfile then [''docker''] else []))
   }"

definition detect_deployment_io :: "string list io" where
  "detect_deployment_io = do {
     dockerfile \<leftarrow> file_exists_io ''Dockerfile'';
     let strategies1 = (if dockerfile then [''docker''] else []);
     k8s \<leftarrow> or_else (file_exists_io ''k8s'') (file_exists_io ''kubernetes'');
     State_Monad.return (strategies1 @ (if k8s then [''kubernetes''] else []))
   }"

text \<open>
  \<^verbatim>\<open>detect\<close>: the six reads, the classification, then the keys of \<^verbatim>\<open>project_info\<close>
  one after the other. When the classification raises, the error is printed and
  raised again.
\<close>

definition detect :: "string \<Rightarrow> world \<Rightarrow> (error + profile) \<times> world" where
  "detect project_path = run_state (do {
     package_json_v \<leftarrow> read_package_json;
     requirements_txt_v \<leftarrow> read_requirements_txt;
     pom_xml_v \<leftarrow> read_pom_xml;
     go_mod_v \<leftarrow> read_go_mod;
     composer_json_v \<leftarrow> read_composer_json;
     csproj_v \<leftarrow> read_csproj;
     detected \<leftarrow> detect_language_and_framework_io
                  \<lparr>files_package_json = package_json_v,
                   files_requirements_txt = requirements_txt_v,
                   files_pom_xml = pom_xml_v, files_go_mod = go_mod_v,
                   files_composer_json = composer_json_v, files_csproj = csproj_v\<rparr>;
     case detected of
       Inl e \<Rightarrow> do {
         print_event (DetectionFailed e);
         State_Monad.return (Inl e)
       }
     | Inr d \<Rightarrow> do {
         flags \<leftarrow> analyze_structure_io (language d);
         let info0 = \<lparr>language = language d, framework = framework d, ptype = ptype d,
                      path = project_path, struct = flags,
                      complexity = ''low'', dependencies = [], testing = False,
                      build_tools = [], deployment = []\<rparr>;
         let info1 = info0\<lparr>complexity := assess_complexity info0\<rparr>;
         tested \<leftarrow> detect_testing_io (language info1);
         let info2 = info1\<lparr>testing := tested\<rparr>;
         tools \<leftarrow> detect_build_tools_io;
         let info3 = info2\<lparr>build_tools := tools\<rparr>;
         strategies \<leftarrow> detect_deployment_io;
         let info4 = info3\<lparr>deployment := strategies\<rparr>;
         State_Monad.return (Inr info4)
       }
   })"

text \<open>The values the six readers return on a tree.\<close>

definition files_of :: "tree \<Rightarrow> manifest_files" where
  "files_of t = \<lparr>files_package_json = package_json t,
                 files_requirements_txt = requirements_txt t,
                 files_pom_xml = pom_xml t, files_go_mod = go_mod t,
                 files_composer_json = composer_json t, files_csproj = csproj t\<rparr>"

section \<open>Refactoring recommendations\<close>

text \<open>
  A recommendation as \<^verbatim>\<open>get_refactoring_recommendations\<close> builds it. The
  \<^verbatim>\<open>message\<close> key holds display text only and is left out.
\<close>

record recommendation =
  rtype :: string
  priority :: string

definition get_refactoring_recommendations :: "profile \<Rightarrow> recommendation list" where
  "get_refactoring_recommendations project_info =
     (if complexity project_info = ''high''
      then [\<lparr>rtype = ''complexity'', priority = ''high''\<rparr>] else [])
     @ (if length (dependencies project_info) > 100
        then [\<lparr>rtype = ''dependencies'', priority = ''medium''\<rparr>] else [])
     @ (if \<not> testing project_info
        then [\<lparr>rtype = ''testing'', priority = ''high''\<rparr>] else [])"

section \<open>PipelineGenerator\<close>

subsection \<open>Configuration and documents\<close>

text \<open>
  The configuration dict. A key that is absent is \<^verbatim>\<open>None\<close>; \<^verbatim>\<open>output_dir\<close> can
  also be present and hold \<^verbatim>\<open>None\<close>, which is how \<^verbatim>\<open>main\<close> passes a missing
  \<^verbatim>\<open>--output\<close>.
\<close>

record deployment_config =
  enabled :: "bool option"
  strategy :: "string option"
  imageName :: "string option"

record config =
  cfg_platform :: "string option"
  cfg_output_dir :: "string option option"
  cfg_deployment :: "deployment_config option"

text \<open>
  The nested dicts and lists the templates build and hand to \<^verbatim>\<open>yaml.dump\<close>. Every
  leaf is a string. A dict keeps its keys in insertion order.
\<close>

datatype yval =
    YStr string
  | YList "yval list"
  | YDict "(string \<times> yval) list"

abbreviation dq :: string where
  "dq \<equiv> [CHR 0x22]"

text \<open>\<^verbatim>\<open>config.get('deployment', {}).get('enabled')\<close> as a condition.\<close>

definition deployment_enabled :: "config \<Rightarrow> bool" where
  "deployment_enabled cfg =
     (case cfg_deployment cfg of
        None \<Rightarrow> False
      | Some d \<Rightarrow> (case enabled d of None \<Rightarrow> False | Some b \<Rightarrow> b))"

definition deployment_strategy :: "config \<Rightarrow> string option" where
  "deployment_strategy cfg =
     (case cfg_deployment cfg of None \<Rightarrow> None | Some d \<Rightarrow> strategy d)"

subsection \<open>Step catalog\<close>

definition get_language_setup_steps :: "profile \<Rightarrow> yval list" where
  "get_language_setup_steps project_info =
     (let lang = language project_info in
      if lang = ''javascript'' then
        [YDict [(''name'', YStr ''Setup Node.js''), (''uses'', YStr ''actions/setup-node@v4''),
                (''with'', YDict [(''node-version'', YStr ''18''), (''cache'', YStr ''npm'')])]]
      else if lang = ''python'' then
        [YDict [(''name'', YStr ''Setup Python''), (''uses'', YStr ''actions/setup-python@v4''),
                (''with'', YDict [(''python-version'', YStr ''3.9'')])]]
      else if lang = ''typescript'' then
        [YDict [(''name'', YStr ''Setup Node.js''), (''uses'', YStr ''actions/setup-node@v4''),
                (''with'', YDict [(''node-version'', YStr ''18''), (''cache'', YStr ''npm'')])]]
      else if lang = ''c'' then
        [YDict [(''name'', YStr ''Setup C environment''),
                (''run'', YStr ''sudo apt-get update && sudo apt-get install -y build-essential gcc make'')]]
      else if lang = ''java'' then
        [YDict [(''name'', YStr ''Setup Java''), (''uses'', YStr ''actions/setup-java@v3''),
                (''with'', YDict [(''java-version'', YStr ''17''),
                                  (''distribution'', YStr ''temurin'')])]]
      else if lang = ''go'' then
        [YDict [(''name'', YStr ''Setup Go''), (''uses'', YStr ''actions/setup-go@v4''),
                (''with'', YDict [(''go-version'', YStr ''1.21'')])]]
      else if lang = ''csharp'' then
        [YDict [(''name'', YStr ''Setup .NET''), (''uses'', YStr ''actions/setup-dotnet@v3''),
                (''with'', YDict [(''dotnet-version'', YStr ''6.0'')])]]
      else [])"

definition get_dependency_install_steps :: "profile \<Rightarrow> yval list" where
  "get_dependency_install_steps project_info =
     (let lang = language project_info in
      if lang = ''javascript'' \<or> lang = ''typescript'' then
        [YDict [(''name'', YStr ''Install dependencies''), (''run'', YStr ''npm ci'')]]
      else if lang = ''python'' then
        [YDict [(''name'', YStr ''Install dependencies''),
                (''run'', YStr ''pip install -r requirements.txt'')]]
      else if lang = ''java'' then
        [YDict [(''name'', YStr ''Install dependencies''),
                (''run'', YStr ''mvn dependency:resolve'')]]
      else if lang = ''go'' then
        [YDict [(''name'', YStr ''Install dependencies''), (''run'', YStr ''go mod download'')]]
      else if lang = ''csharp'' then
        [YDict [(''name'', YStr ''Install dependencies''), (''run'', YStr ''dotnet restore'')]]
      else [])"

definition get_test_steps :: "profile \<Rightarrow> yval list" where
  "get_test_steps project_info =
     (let lang = language project_info in
      if lang = ''javascript'' \<or> lang = ''typescript'' then
        [YDict [(''name'', YStr ''Run tests''), (''run'', YStr ''npm test'')]]
      else if lang = ''python'' then
        [YDict [(''name'', YStr ''Run tests''), (''run'', YStr ''python -m pytest'')]]
      else if lang = ''java'' then
        [YDict [(''name'', YStr ''Run tests''), (''run'', YStr ''mvn test'')]]
      else if lang = ''go'' then
        [YDict [(''name'', YStr ''Run tests''), (''run'', YStr ''go test ./...'')]]
      else if lang = ''csharp'' then
        [YDict [(''name'', YStr ''Run tests''), (''run'', YStr ''dotnet test'')]]
      else [])"

definition get_build_steps :: "profile \<Rightarrow> yval list" where
  "get_build_steps project_info =
     (let lang = language project_info; fw = framework project_info in
      if lang = ''javascript'' \<or> lang = ''typescript'' then
        (if fw = Some ''react'' \<or> fw = Some ''vue'' \<or> fw = Some ''typescript'' then
           [YDict [(''name'', YStr ''Build''), (''run'', YStr ''npm run build'')]]
         else [])
      else if lang = ''java'' then
        [YDict [(''name'', YStr ''Build''), (''run'', YStr ''mvn package'')]]
      else if lang = ''go'' then
        [YDict [(''name'', YStr ''Build''), (''run'', YStr ''go build -o app ./...'')]]
      else if lang = ''csharp'' then
        [YDict [(''name'', YStr ''Build''), (''run'', YStr ''dotnet build'')]]
      else if lang = ''c'' then
        [YDict [(''name'', YStr ''Build''),
                (''run'', YStr (''make || gcc -o app *.c || echo '' @ dq
                                @ ''No standard build found'' @ dq))]]
      else [])"

definition get_docker_build_steps :: "profile \<Rightarrow> yval list" where
  "get_docker_build_steps project_info =
     [YDict [(''name'', YStr ''Build Docker image''),
             (''run'', YStr ''docker build -t myapp:${{ github.sha }} .'')],
      YDict [(''name'', YStr ''Test Docker image''),
             (''run'', YStr (''docker run --rm myapp:${{ github.sha }} --version || echo '' @ dq
                             @ ''No version flag'' @ dq))]]"

definition get_docker_deploy_steps :: "profile \<Rightarrow> config \<Rightarrow> yval list" where
  "get_docker_deploy_steps project_info cfg =
     (let image_name =
            (case cfg_deployment cfg of
               None \<Rightarrow> ''myapp''
             | Some d \<Rightarrow> (case imageName d of None \<Rightarrow> ''myapp'' | Some n \<Rightarrow> n))
      in [YDict [(''name'', YStr ''Build Docker image''),
                 (''run'', YStr (''docker build -t '' @ image_name @ '':${{ github.sha }} .''))],
          YDict [(''name'', YStr ''Push to registry''),
                 (''run'', YStr (''docker push '' @ image_name @ '':${{ github.sha }}''))]])"

definition get_kubernetes_deploy_steps :: "profile \<Rightarrow> config \<Rightarrow> yval list" where
  "get_kubernetes_deploy_steps project_info cfg =
     [YDict [(''name'', YStr ''Deploy to Kubernetes''), (''run'', YStr ''kubectl apply -f k8s/'')]]"

definition generate_build_steps :: "profile \<Rightarrow> config \<Rightarrow> yval list" where
  "generate_build_steps project_info cfg =
     [YDict [(''name'', YStr ''Checkout''), (''uses'', YStr ''actions/checkout@v4'')]]
     @ get_language_setup_steps project_info
     @ get_dependency_install_steps project_info
     @ (if testing project_info then get_test_steps project_info else [])
     @ get_build_steps project_info
     @ (if dockerized (struct project_info) then get_docker_build_steps project_info else [])"

definition generate_deploy_steps :: "profile \<Rightarrow> config \<Rightarrow> yval list" where
  "generate_deploy_steps project_info cfg =
     (if deployment_strategy cfg = Some ''docker'' then
        get_docker_deploy_steps project_info cfg
      else if deployment_strategy cfg = Some ''kubernetes'' then
        get_kubernetes_deploy_steps project_info cfg
      else [])"

subsection \<open>Platform templates\<close>

text \<open>
  A template returns the document before serialisation: \<^verbatim>\<open>content\<close> is the value
  given to \<^verbatim>\<open>yaml.dump\<close>.
\<close>

record pipeline =
  content :: yval
  format :: string
  filename :: string

text \<open>\<^verbatim>\<open>str(x)\<close> inside the f-string that names the workflow.\<close>

definition py_str :: "string option \<Rightarrow> string" where
  "py_str v = (case v of None \<Rightarrow> ''None'' | Some s \<Rightarrow> s)"

definition generate_github_actions :: "profile \<Rightarrow> config \<Rightarrow> pipeline" where
  "generate_github_actions project_info cfg =
     (let build_job = YDict [(''runs-on'', YStr ''ubuntu-latest''),
                             (''steps'', YList (generate_build_steps project_info cfg))];
          jobs = [(''build'', build_job)]
                 @ (if deployment_enabled cfg then
                      [(''deploy'',
                        YDict [(''runs-on'', YStr ''ubuntu-latest''),
                               (''needs'', YStr ''build''),
                               (''if'', YStr (''github.ref == 'refs/heads/main' && github.event_name == 'push'' @ [CHR 0x27])),
                               (''steps'', YList (generate_deploy_steps project_info cfg))])]
                    else []);
          workflow =
            YDict [(''name'', YStr (py_str (framework project_info) @ '' CI/CD'')),
                   (''on'',
                    YDict [(''push'',
                            YDict [(''branches'',
                                    YList [YStr ''main'', YStr ''master'', YStr ''develop''])]),
                           (''pull_request'',
                            YDict [(''branches'', YList [YStr ''main'', YStr ''master''])])]),
                   (''jobs'', YDict jobs)]
      in \<lparr>content = workflow, format = ''yaml'', filename = ''.github/workflows/ci.yml''\<rparr>)"

definition get_gitlab_variables :: "profile \<Rightarrow> config \<Rightarrow> yval" where
  "get_gitlab_variables project_info cfg =
     YDict [(''NODE_VERSION'', YStr ''18''), (''PYTHON_VERSION'', YStr ''3.9''),
            (''JAVA_VERSION'', YStr ''17'')]"

definition get_gitlab_script :: "string \<Rightarrow> profile \<Rightarrow> string list" where
  "get_gitlab_script stage project_info =
     (let lang = language project_info;
          unknown_stage = [''echo '' @ dq @ ''Unknown stage'' @ dq] in
      if stage = ''build'' then
        (if lang = ''javascript'' then [''npm ci'', ''npm run build'']
         else if lang = ''python'' then [''pip install -r requirements.txt'']
         else if lang = ''java'' then [''mvn clean package'']
         else if lang = ''go'' then [''go mod download'', ''go build ./...'']
         else if lang = ''csharp'' then [''dotnet restore'', ''dotnet build'']
         else unknown_stage)
      else if stage = ''test'' then
        (if lang = ''javascript'' then [''npm test'']
         else if lang = ''python'' then [''python -m pytest'']
         else if lang = ''java'' then [''mvn test'']
         else if lang = ''go'' then [''go test ./...'']
         else if lang = ''csharp'' then [''dotnet test'']
         else unknown_stage)
      else if stage = ''deploy'' then [''echo '' @ dq @ ''Deploy script would go here'' @ dq]
      else unknown_stage)"

definition get_gitlab_image :: "profile \<Rightarrow> string" where
  "get_gitlab_image project_info =
     (let lang = language project_info in
      if lang = ''javascript'' then ''node:18''
      else if lang = ''python'' then ''python:3.9''
      else if lang = ''java'' then ''openjdk:17''
      else if lang = ''go'' then ''golang:1.21''
      else if lang = ''csharp'' then ''mcr.microsoft.com/dotnet/sdk:6.0''
      else ''ubuntu:latest'')"

definition generate_gitlab_job :: "string \<Rightarrow> profile \<Rightarrow> config \<Rightarrow> yval" where
  "generate_gitlab_job stage project_info cfg =
     YDict [(''stage'', YStr stage),
            (''script'', YList (map YStr (get_gitlab_script stage project_info))),
            (''image'', YStr (get_gitlab_image project_info))]"

definition generate_gitlab_ci :: "profile \<Rightarrow> config \<Rightarrow> pipeline" where
  "generate_gitlab_ci project_info cfg =
     (let pl = [(''stages'', YList [YStr ''build'', YStr ''test'', YStr ''deploy'']),
                (''variables'', get_gitlab_variables project_info cfg),
                (''build'', generate_gitlab_job ''build'' project_info cfg),
                (''test'', generate_gitlab_job ''test'' project_info cfg)]
               @ (if deployment_enabled cfg
                  then [(''deploy'', generate_gitlab_job ''deploy'' project_info cfg)]
                  else [])
      in \<lparr>content = YDict pl, format = ''yaml'', filename = ''.gitlab-ci.yml''\<rparr>)"

definition generate_jenkins_stages :: "profile \<Rightarrow> config \<Rightarrow> yval list" where
  "generate_jenkins_stages project_info cfg =
     [YDict [(''stage'', YStr ''Build''),
             (''steps'', YList [YDict [(''sh'', YStr (''echo '' @ dq @ ''Build step'' @ dq))]])],
      YDict [(''stage'', YStr ''Test''),
             (''steps'', YList [YDict [(''sh'', YStr (''echo '' @ dq @ ''Test step'' @ dq))]])]]"

definition get_jenkins_post_actions :: "profile \<Rightarrow> config \<Rightarrow> yval" where
  "get_jenkins_post_actions project_info cfg =
     YDict [(''always'',
             YList [YDict [(''publishTestResults'',
                            YDict [(''testResultsPattern'', YStr ''**/test-results.xml'')])]])]"

definition generate_jenkins :: "profile \<Rightarrow> config \<Rightarrow> pipeline" where
  "generate_jenkins project_info cfg =
     \<lparr>content =
        YDict [(''pipeline'',
                YDict [(''agent'', YStr ''any''),
                       (''stages'', YList (generate_jenkins_stages project_info cfg)),
                       (''post'', get_jenkins_post_actions project_info cfg)])],
      format = ''yaml'', filename = ''Jenkinsfile''\<rparr>"

definition templates :: "string \<Rightarrow> (profile \<Rightarrow> config \<Rightarrow> pipeline) option" where
  "templates platform =
     (if platform = ''github-actions'' then Some generate_github_actions
      else if platform = ''gitlab-ci'' then Some generate_gitlab_ci
      else if platform = ''jenkins'' then Some generate_jenkins
      else None)"

subsection \<open>Writing the document\<close>

text \<open>
  The part of the file system that generation can change: the directories
  \<^verbatim>\<open>os.makedirs\<close> was asked for and the files written, newest first. \<^verbatim>\<open>denied\<close>
  tells for which paths the operating system refuses, which raises \<^verbatim>\<open>OSError\<close>.
\<close>

record filesystem =
  dirs :: "string list"
  files :: "(string \<times> yval) list"
  denied :: "string \<Rightarrow> bool"

text \<open>\<^verbatim>\<open>os.path.join\<close> and \<^verbatim>\<open>os.path.dirname\<close> on POSIX paths.\<close>

definition path_join :: "string \<Rightarrow> string \<Rightarrow> string" where
  "path_join a b =
     (if b \<noteq> [] \<and> hd b = CHR ''/'' then b
      else if a = [] \<or> last a = CHR ''/'' then a @ b
      else a @ ''/'' @ b)"

definition rstrip_slash :: "string \<Rightarrow> string" where
  "rstrip_slash s = rev (dropWhile (\<lambda>c. c = CHR ''/'') (rev s))"

definition dirname :: "string \<Rightarrow> string" where
  "dirname p =
     (let hd_part = rev (dropWhile (\<lambda>c. c \<noteq> CHR ''/'') (rev p)) in
      if hd_part \<noteq> [] \<and> rstrip_slash hd_part \<noteq> [] then rstrip_slash hd_part else hd_part)"

definition save_pipeline ::
  "pipeline \<Rightarrow> profile \<Rightarrow> config \<Rightarrow> filesystem \<Rightarrow> (error + string) \<times> filesystem" where
  "save_pipeline pl project_info cfg fs =
     (let output_dir0 = (case cfg_output_dir cfg of
                           None \<Rightarrow> path project_info
                         | Some None \<Rightarrow> []
                         | Some (Some d) \<Rightarrow> d);
          output_dir = (if output_dir0 = [] then ''.'' else output_dir0);
          output_path = path_join output_dir (filename pl)
      in if denied fs (dirname output_path) then (Inl (OSError (dirname output_path)), fs)
         else
           (let fs1 = fs\<lparr>dirs := dirname output_path # dirs fs\<rparr> in
            if denied fs1 output_path then (Inl (OSError output_path), fs1)
            else (Inr output_path, fs1\<lparr>files := (output_path, content pl) # files fs1\<rparr>)))"

subsection \<open>generate\<close>

record generated = pipeline +
  output_file :: string
  platform :: string

definition generate ::
  "profile \<Rightarrow> config \<Rightarrow> filesystem \<Rightarrow> (error + generated) \<times> filesystem" where
  "generate project_info cfg fs =
     (let pf = (case cfg_platform cfg of None \<Rightarrow> ''github-actions'' | Some v \<Rightarrow> v) in
      case templates pf of
        None \<Rightarrow> (Inl (ValueError pf), fs)
      | Some template \<Rightarrow>
          (let pl = template project_info cfg in
           case save_pipeline pl project_info cfg fs of
             (Inl e, fs') \<Rightarrow> (Inl e, fs')
           | (Inr output_path, fs') \<Rightarrow>
               (Inr \<lparr>content = content pl, format = format pl, filename = filename pl,
                     output_file = output_path, platform = pf\<rparr>, fs')))"

section \<open>Notions used to state the properties\<close>

text \<open>
  The complexity rule in the words of the specification: an additive score over the
  number of dependencies, the two structure flags and the testing flag, then two
  thresholds.
\<close>

definition complexity_spec :: "nat \<Rightarrow> bool \<Rightarrow> bool \<Rightarrow> bool \<Rightarrow> string" where
  "complexity_spec ndeps is_monorepo is_microservices has_tests =
     (let score = (if ndeps > 50 then 2 else if ndeps > 20 then 1 else 0)
                  + (if is_monorepo then 2 else 0)
                  + (if is_microservices then 2 else 0)
                  + (if \<not> has_tests then 1 else (0::int))
      in if score \<ge> 5 then ''high'' else if score \<ge> 3 then ''medium'' else ''low'')"

text \<open>An empty directory: no manifest can be read and no pattern finds anything.\<close>

definition empty_tree :: tree where
  "empty_tree = \<lparr>package_json = None, requirements_txt = None, pom_xml = None,
                  go_mod = None, composer_json = None, csproj = None,
                  pyproject_toml = None, build_gradle = None, glob = (\<lambda>pattern. False)\<rparr>"

text \<open>
  A directory holding exactly the two files \<^verbatim>\<open>lerna.json\<close> and \<^verbatim>\<open>a.test.js\<close>: the
  only patterns of the detector that find an entry are \<^verbatim>\<open>lerna.json\<close> and
  \<^verbatim>\<open>**/*.test.js\<close>.
\<close>

definition monorepo_tested_tree :: tree where
  "monorepo_tested_tree =
     empty_tree\<lparr>glob := (\<lambda>pattern. pattern = ''lerna.json'' \<or> pattern = ''**/*.test.js'')\<rparr>"

text \<open>
  A directory whose \<^verbatim>\<open>package.json\<close> lists \<^verbatim>\<open>react\<close> as a dependency and
  \<^verbatim>\<open>typescript\<close> as a development dependency.
\<close>

definition ts_react_tree :: tree where
  "ts_react_tree =
     empty_tree\<lparr>package_json :=
       Some (JObj [(''name'', JStr ''shop''),
                   (''dependencies'', JObj [(''react'', JStr ''^18.2.0'')]),
                   (''devDependencies'', JObj [(''typescript'', JStr ''^5.4.0'')])])\<rparr>"

text \<open>The names the \<^verbatim>\<open>package.json\<close> branch looks for among the dependencies.\<close>

definition package_markers :: "string list" where
  "package_markers =
     [''typescript'', ''ts-node'', ''react-native'', ''react'', ''react-dom'', ''vue'',
      ''@vue/cli-service'', ''@angular/core'', ''@angular/cli'', ''express'', ''koa'',
      ''fastify'', ''nestjs'']"

text \<open>
  No rule of the \<^verbatim>\<open>package.json\<close> branch applies: the file is missing, unparsable or
  parses to a false value, or it is an object whose two dependency tables are objects
  naming none of the markers, whose name is not \<^verbatim>\<open>express\<close> and whose keywords do not
  contain \<^verbatim>\<open>express\<close>.
\<close>

definition no_package_rule :: "json option \<Rightarrow> bool" where
  "no_package_rule v =
     (case v of
        None \<Rightarrow> True
      | Some pj \<Rightarrow>
          \<not> truthy pj
          \<or> (case (py_get pj ''dependencies'' (JObj []), py_get pj ''devDependencies'' (JObj []),
                    py_get pj ''name'' JNull, py_get pj ''keywords'' (JArr [])) of
                (Inr a, Inr b, Inr nm, Inr kws) \<Rightarrow>
                  (case dict_merge_keys a b of
                     Inr all_deps \<Rightarrow>
                       list_all (\<lambda>m. m \<notin> set all_deps) package_markers
                       \<and> nm \<noteq> JStr ''express''
                       \<and> py_in ''express'' kws = Inr False
                   | Inl e \<Rightarrow> False)
              | _ \<Rightarrow> False))"

text \<open>The file names and patterns whose presence selects a language.\<close>

definition manifest_patterns :: "string list" where
  "manifest_patterns =
     [''requirements.txt'', ''pyproject.toml'', ''pom.xml'', ''build.gradle'', ''go.mod'',
      ''Makefile'', ''CMakeLists.txt'', ''configure'', ''*.c'', ''*.h'', ''*.csproj'',
      ''composer.json'']"

definition no_rule_matches :: "tree \<Rightarrow> bool" where
  "no_rule_matches t =
     (no_package_rule (package_json t)
      \<and> \<not> truthy_lines (requirements_txt t) \<and> \<not> truthy_str (pom_xml t)
      \<and> \<not> truthy_str (go_mod t) \<and> \<not> truthy_str (csproj t)
      \<and> \<not> truthy_json (composer_json t)
      \<and> list_all (\<lambda>pattern. \<not> file_exists t pattern) manifest_patterns)"

text \<open>Reading a generated document.\<close>

fun ylookup :: "yval \<Rightarrow> string \<Rightarrow> yval option" where
  "ylookup (YDict kvs) k = map_of kvs k"
| "ylookup _ k = None"

fun ykeys :: "yval \<Rightarrow> string list" where
  "ykeys (YDict kvs) = map fst kvs"
| "ykeys _ = []"

fun ystr :: "yval \<Rightarrow> string" where
  "ystr (YStr s) = s"
| "ystr _ = []"

fun yitems :: "yval option \<Rightarrow> yval list" where
  "yitems (Some (YList xs)) = xs"
| "yitems _ = []"

text \<open>Every string that occurs as a value anywhere in a document.\<close>

fun strings_of :: "yval \<Rightarrow> string list" where
  "strings_of (YStr s) = [s]"
| "strings_of (YList xs) = concat (map strings_of xs)"
| "strings_of (YDict kvs) = concat (map (\<lambda>kv. strings_of (snd kv)) kvs)"

text \<open>
  The stages of a document, by platform: the jobs of a workflow, the jobs of a GitLab
  pipeline (its keys other than \<^verbatim>\<open>stages\<close> and \<^verbatim>\<open>variables\<close>), the stages of a Jenkins
  pipeline.
\<close>

definition stage_names :: "string \<Rightarrow> yval \<Rightarrow> string list" where
  "stage_names pf doc =
     (if pf = ''github-actions'' then
        (case ylookup doc ''jobs'' of None \<Rightarrow> [] | Some jobs \<Rightarrow> ykeys jobs)
      else if pf = ''gitlab-ci'' then
        filter (\<lambda>k. k \<noteq> ''stages'' \<and> k \<noteq> ''variables'') (ykeys doc)
      else if pf = ''jenkins'' then
        (case ylookup doc ''pipeline'' of
           None \<Rightarrow> []
         | Some pl \<Rightarrow>
             map (\<lambda>st. case ylookup st ''stage'' of None \<Rightarrow> [] | Some n \<Rightarrow> ystr n)
                 (yitems (ylookup pl ''stages'')))
      else [])"

definition has_deploy_stage :: "string \<Rightarrow> yval \<Rightarrow> bool" where
  "has_deploy_stage pf doc = (''deploy'' \<in> set (map str_lower (stage_names pf doc)))"

text \<open>The commands of \<^verbatim>\<open>_get_test_steps\<close>, which are also those of the GitLab test job.\<close>

definition test_invocations :: "string list" where
  "test_invocations =
     [''npm test'', ''python -m pytest'', ''mvn test'', ''go test ./...'', ''dotnet test'']"

definition has_test_invocation :: "yval \<Rightarrow> bool" where
  "has_test_invocation doc = list_ex (\<lambda>s. s \<in> set test_invocations) (strings_of doc)"

text \<open>The steps of the deploy job of a workflow document, if it has one.\<close>

definition workflow_deploy_steps :: "yval \<Rightarrow> yval list option" where
  "workflow_deploy_steps doc =
     (case ylookup doc ''jobs'' of
        None \<Rightarrow> None
      | Some jobs \<Rightarrow>
          (case ylookup jobs ''deploy'' of
             None \<Rightarrow> None
           | Some job \<Rightarrow> Some (yitems (ylookup job ''steps''))))"

text \<open>The command of a step, empty when the step has none.\<close>

definition step_run :: "yval \<Rightarrow> string" where
  "step_run st = (case ylookup st ''run'' of None \<Rightarrow> [] | Some v \<Rightarrow> ystr v)"

text \<open>
  The commands of the deploy stage of a document, by platform: the \<^verbatim>\<open>run\<close> commands
  of the deploy job of a workflow, the script of the GitLab deploy job, the \<^verbatim>\<open>sh\<close>
  commands of a Jenkins stage named deploy. \<^verbatim>\<open>None\<close> when the document has no such
  stage.
\<close>

definition deploy_commands :: "string \<Rightarrow> yval \<Rightarrow> string list option" where
  "deploy_commands pf doc =
     (if pf = ''github-actions'' then map_option (map step_run) (workflow_deploy_steps doc)
      else if pf = ''gitlab-ci'' then
        (case ylookup doc ''deploy'' of
           None \<Rightarrow> None
         | Some job \<Rightarrow> Some (map ystr (yitems (ylookup job ''script''))))
      else if pf = ''jenkins'' then
        (case ylookup doc ''pipeline'' of
           None \<Rightarrow> None
         | Some pl \<Rightarrow>
             (case find (\<lambda>st. case ylookup st ''stage'' of
                                None \<Rightarrow> False
                              | Some n \<Rightarrow> str_lower (ystr n) = ''deploy'')
                        (yitems (ylookup pl ''stages'')) of
                None \<Rightarrow> None
              | Some st \<Rightarrow>
                  Some (map (\<lambda>s. case ylookup s ''sh'' of None \<Rightarrow> [] | Some c \<Rightarrow> ystr c)
                            (yitems (ylookup st ''steps'')))))
      else None)"

text \<open>Every command of the list mentions the image name.\<close>

definition names_image :: "string \<Rightarrow> string list \<Rightarrow> bool" where
  "names_image img cmds = list_all (\<lambda>c. str_contains c img) cmds"

text \<open>Sample inputs.\<close>

text \<open>A directory whose \<^verbatim>\<open>package.json\<close> holds the JSON list \<^verbatim>\<open>[1]\<close>.\<close>

definition malformed_tree :: tree where
  "malformed_tree = empty_tree\<lparr>package_json := Some (JArr [JNum 1])\<rparr>"

definition python_untested :: profile where
  "python_untested =
     \<lparr>language = ''python'', framework = Some ''flask'', ptype = ''backend'',
      path = ''proj'',
      struct = \<lparr>monorepo = False, microservices = False, layered = False,
                modular = False, dockerized = False\<rparr>,
      complexity = ''low'', dependencies = [], testing = False,
      build_tools = [], deployment = []\<rparr>"

definition deploy_config :: "string \<Rightarrow> string option \<Rightarrow> string option \<Rightarrow> config" where
  "deploy_config pf strat img =
     \<lparr>cfg_platform = Some pf, cfg_output_dir = Some None,
      cfg_deployment = Some \<lparr>enabled = Some True, strategy = strat, imageName = img\<rparr>\<rparr>"

definition empty_fs :: filesystem where
  "empty_fs = \<lparr>dirs = [], files = [], denied = (\<lambda>p. False)\<rparr>"

definition ts_react_world :: world where
  "ts_react_world = \<lparr>wtree = ts_react_tree, console = []\<rparr>"

definition ts_react_profile :: profile where
  "ts_react_profile =
     \<lparr>language = ''typescript'', framework = Some ''typescript'', ptype = ''backend'',
      path = ''proj'',
      struct = \<lparr>monorepo = False, microservices = False, layered = False,
                modular = False, dockerized = False\<rparr>,
      complexity = ''low'', dependencies = [], testing = False,
      build_tools = [], deployment = []\<rparr>"

section \<open>Facts about detection\<close>

lemma assess_complexity_spec:
  "assess_complexity p =
     complexity_spec (length (dependencies p)) (monorepo (struct p))
       (microservices (struct p)) (testing p)"
  by (simp add: assess_complexity_def complexity_spec_def Let_def)

lemma detect_body_fields:
  assumes "detect_body pa t = Inr p"
  shows "dependencies p = []"
    and "struct p = analyze_structure t (language p)"
    and "testing p = detect_testing t (language p)"
    and "complexity p =
           complexity_spec 0 (monorepo (struct p)) (microservices (struct p)) False"
    and "path p = pa"
  using assms
  by (auto simp add: detect_body_def Let_def assess_complexity_def complexity_spec_def
      split: sum.splits)

text \<open>
  Each method, run on a world, returns what the corresponding function computes from
  the tree and leaves the world as it was; \<^verbatim>\<open>detect\<close> only adds a console line when
  it fails.
\<close>

lemma run_prims [simp]:
  "run_state read_package_json w = (package_json (wtree w), w)"
  "run_state read_requirements_txt w = (requirements_txt (wtree w), w)"
  "run_state read_pom_xml w = (pom_xml (wtree w), w)"
  "run_state read_go_mod w = (go_mod (wtree w), w)"
  "run_state read_composer_json w = (composer_json (wtree w), w)"
  "run_state read_csproj w = (csproj (wtree w), w)"
  "run_state open_pyproject_toml w = (pyproject_toml (wtree w), w)"
  "run_state open_build_gradle w = (build_gradle (wtree w), w)"
  "run_state (file_exists_io pattern) w = (file_exists (wtree w) pattern, w)"
  "run_state (print_event e) w = ((), w\<lparr>console := console w @ [e]\<rparr>)"
  by (simp_all add: read_package_json_def read_requirements_txt_def read_pom_xml_def read_go_mod_def
      read_composer_json_def read_csproj_def open_pyproject_toml_def open_build_gradle_def
      file_exists_io_def file_exists_def print_event_def)

lemma run_or_else [simp]:
  "run_state (or_else a b) w =
     (case run_state a w of (x, w') \<Rightarrow> if x then (True, w') else run_state b w')"
  by (simp add: or_else_def split: prod.splits)

lemma run_python [simp]:
  "run_state detect_python_framework_io w = (detect_python_framework (wtree w), w)"
  by (simp add: detect_python_framework_io_def detect_python_framework_def split: option.splits)

lemma run_java [simp]:
  "run_state detect_java_framework_io w = (detect_java_framework (wtree w), w)"
  by (simp add: detect_java_framework_io_def detect_java_framework_def split: option.splits)

lemma run_go [simp]:
  "run_state detect_go_framework_io w = (detect_go_framework (wtree w), w)"
  by (simp add: detect_go_framework_io_def detect_go_framework_def split: option.splits)

lemma run_csharp [simp]:
  "run_state detect_csharp_framework_io w = (detect_csharp_framework (wtree w), w)"
  by (simp add: detect_csharp_framework_io_def detect_csharp_framework_def)

lemma run_php [simp]:
  "run_state detect_php_framework_io w = (detect_php_framework (wtree w), w)"
  by (simp add: detect_php_framework_io_def detect_php_framework_def split: option.splits)

lemma run_other [simp]:
  "run_state (detect_other_manifests_io (files_of (wtree w))) w = (detect_other_manifests (wtree w), w)"
  by (simp add: detect_other_manifests_io_def detect_other_manifests_def files_of_def split: sum.splits)

lemma run_language [simp]:
  "run_state (detect_language_and_framework_io (files_of (wtree w))) w = (detect_language_and_framework (wtree w), w)"
  using run_other[of w]
  by (simp add: detect_language_and_framework_io_def detect_language_and_framework_def files_of_def
       split: sum.splits option.splits)

lemma run_structure [simp]:
  "run_state (analyze_structure_io l) w = (analyze_structure (wtree w) l, w)"
  by (simp add: analyze_structure_io_def analyze_structure_def Let_def)

lemma run_any_pattern [simp]:
  "run_state (any_pattern_exists_io ps) w = (any_pattern_exists (wtree w) ps, w)"
  by (induction ps) simp_all

lemma run_testing [simp]:
  "run_state (detect_testing_io l) w = (detect_testing (wtree w) l, w)"
  by (simp add: detect_testing_io_def detect_testing_def)

lemma run_tools [simp]:
  "run_state detect_build_tools_io w = (detect_build_tools (wtree w), w)"
  by (simp add: detect_build_tools_io_def detect_build_tools_def Let_def)

lemma run_deployment [simp]:
  "run_state detect_deployment_io w = (detect_deployment (wtree w), w)"
  by (simp add: detect_deployment_io_def detect_deployment_def Let_def)

lemma detect_run:
  "detect pa w =
     (case detect_body pa (wtree w) of
        Inl e \<Rightarrow> (Inl e, w\<lparr>console := console w @ [DetectionFailed e]\<rparr>)
      | Inr project_info \<Rightarrow> (Inr project_info, w))"
  using run_language [of w]
  by (simp add: detect_def detect_body_def files_of_def Let_def split: sum.splits)

lemma detect_fst: "fst (detect pa w) = detect_body pa (wtree w)"
  by (simp add: detect_run split: sum.splits)

lemma detect_wtree: "wtree (snd (detect pa w)) = wtree w"
  by (simp add: detect_run split: sum.splits)

lemma analyze_structure_flags:
  "layered (analyze_structure t l) = False" "modular (analyze_structure t l) = False"
  by (simp_all add: analyze_structure_def Let_def)

lemma py_get_Inr: "py_get pj k d = Inr v \<Longrightarrow> \<exists>kvs. pj = JObj kvs"
  by (cases pj) auto

lemma detect_ts_react: "fst (detect ''proj'' ts_react_world) = Inr ts_react_profile"
  by (simp add: detect_run detect_body_def detect_language_and_framework_def
      classify_package_json_def ts_react_world_def ts_react_tree_def ts_react_profile_def
      empty_tree_def truthy_json_def file_exists_def analyze_structure_def
      assess_complexity_def detect_testing_def test_patterns_def Let_def
      detect_build_tools_def detect_deployment_def)

lemma detect_malformed:
  "detect ''proj'' \<lparr>wtree = malformed_tree, console = []\<rparr> =
     (Inl AttributeError, \<lparr>wtree = malformed_tree, console = [DetectionFailed AttributeError]\<rparr>)"
  by (simp add: detect_run detect_body_def detect_language_and_framework_def
      classify_package_json_def malformed_tree_def empty_tree_def truthy_json_def)

section \<open>Complexity\<close>

text \<open>
  C1. The complexity stored by detection is meant to be the score rule applied to the
  dependencies, structure and testing flag of the same profile. \<^verbatim>\<open>detect\<close> calls
  \<^verbatim>\<open>_assess_complexity\<close> one line before it sets \<^verbatim>\<open>testing\<close>, so the rule always
  reads the default \<^verbatim>\<open>False\<close>. On a directory with \<^verbatim>\<open>lerna.json\<close> and one
  \<^verbatim>\<open>*.test.js\<close> file detection returns complexity medium together with testing true,
  while the rule on the returned fields (no dependencies, monorepo, tests present)
  gives low.
\<close>

theorem detect_complexity_reads_stale_testing:
  "fst (detect ''proj'' \<lparr>wtree = monorepo_tested_tree, console = []\<rparr>) =
     Inr \<lparr>language = ''unknown'', framework = None, ptype = ''unknown'', path = ''proj'',
          struct = \<lparr>monorepo = True, microservices = False, layered = False,
                    modular = False, dockerized = False\<rparr>,
          complexity = ''medium'', dependencies = [], testing = True,
          build_tools = [], deployment = []\<rparr>
   \<and> complexity_spec 0 True False True = ''low''"
  by (simp add: detect_run detect_body_def detect_language_and_framework_def
      detect_other_manifests_def monorepo_tested_tree_def empty_tree_def truthy_json_def
      truthy_str_def truthy_lines_def file_exists_def analyze_structure_def
      assess_complexity_def detect_testing_def test_patterns_def Let_def
      detect_build_tools_def detect_deployment_def complexity_spec_def)

section \<open>Classification order\<close>

text \<open>
  C6. When \<^verbatim>\<open>package.json\<close> is an object whose merged dependency and development
  dependency tables name \<^verbatim>\<open>typescript\<close> or \<^verbatim>\<open>ts-node\<close> and also \<^verbatim>\<open>react\<close> or
  \<^verbatim>\<open>react-dom\<close>, classification returns language typescript, framework typescript:
  the TypeScript check comes first and the React check is never reached.
\<close>

theorem typescript_precedes_react:
  assumes "package_json t = Some pj"
    and "py_get pj ''dependencies'' (JObj []) = Inr a"
    and "py_get pj ''devDependencies'' (JObj []) = Inr b"
    and "dict_merge_keys a b = Inr all_deps"
    and "''typescript'' \<in> set all_deps \<or> ''ts-node'' \<in> set all_deps"
    and "''react'' \<in> set all_deps \<or> ''react-dom'' \<in> set all_deps"
  shows "detect_language_and_framework t =
           Inr \<lparr>language = ''typescript'', framework = Some ''typescript'',
                ptype = ''backend''\<rparr>"
proof -
  obtain kvs where pj: "pj = JObj kvs"
    using assms(2) py_get_Inr by blast
  have "kvs \<noteq> []"
  proof
    assume "kvs = []"
    with pj assms(2,3) have "a = JObj []" "b = JObj []" by auto
    with assms(4) have "all_deps = []" by auto
    with assms(5) show False by simp
  qed
  then have tr: "truthy_json (package_json t)"
    using assms(1) pj by (simp add: truthy_json_def)
  have "classify_package_json pj =
          Inr (Some \<lparr>language = ''typescript'', framework = Some ''typescript'',
                     ptype = ''backend''\<rparr>)"
    using assms(2-5) by (simp add: classify_package_json_def)
  then show ?thesis
    using tr assms(1) by (simp add: detect_language_and_framework_def)
qed

theorem typescript_precedes_react_witness:
  "detect_language_and_framework ts_react_tree =
     Inr \<lparr>language = ''typescript'', framework = Some ''typescript'', ptype = ''backend''\<rparr>
   \<and> framework ts_react_profile \<noteq> Some ''react''"
  using typescript_precedes_react
          [of ts_react_tree
              "JObj [(''name'', JStr ''shop''),
                     (''dependencies'', JObj [(''react'', JStr ''^18.2.0'')]),
                     (''devDependencies'', JObj [(''typescript'', JStr ''^5.4.0'')])]"
              "JObj [(''react'', JStr ''^18.2.0'')]"
              "JObj [(''typescript'', JStr ''^5.4.0'')]"
              "[''react'', ''typescript'']"]
  by (simp add: ts_react_tree_def empty_tree_def ts_react_profile_def)

section \<open>Unsupported platform\<close>

text \<open>
  C7. When the configured platform is none of \<^verbatim>\<open>github-actions\<close>, \<^verbatim>\<open>gitlab-ci\<close> and
  \<^verbatim>\<open>jenkins\<close>, \<^verbatim>\<open>generate\<close> raises \<^verbatim>\<open>ValueError\<close> naming the platform and leaves the
  file system exactly as it was: no directory is created and no file is written.
\<close>

theorem unsupported_platform_no_write:
  assumes "cfg_platform cfg = Some pf"
    and "pf \<noteq> ''github-actions''" and "pf \<noteq> ''gitlab-ci''" and "pf \<noteq> ''jenkins''"
  shows "generate p cfg fs = (Inl (ValueError pf), fs)"
  using assms by (simp add: generate_def templates_def)

theorem unsupported_platform_no_write_witness:
  "generate python_untested (deploy_config ''circleci'' None None) empty_fs =
     (Inl (ValueError ''circleci''), empty_fs)"
  using unsupported_platform_no_write
          [of "deploy_config ''circleci'' None None" "''circleci''" python_untested empty_fs]
  by (simp add: deploy_config_def)

section \<open>Idempotence\<close>

text \<open>
  C8. \<^verbatim>\<open>detect\<close> is run as a program on the world, every read, query and print in
  turn. It leaves the tree as it found it, and the only trace of a run is one
  console line when it fails. A second run on the world the first run left behind
  returns the same result as the first, the same profile in every field or the same
  error; so does a run on any world with the same tree, whatever was printed before.
\<close>

theorem detect_idempotent:
  "fst (detect pa (snd (detect pa w))) = fst (detect pa w)
   \<and> wtree (snd (detect pa w)) = wtree w
   \<and> console (snd (detect pa w))
       = console w @ (case fst (detect pa w) of Inl e \<Rightarrow> [DetectionFailed e] | Inr p \<Rightarrow> [])
   \<and> (wtree w' = wtree w \<longrightarrow> fst (detect pa w') = fst (detect pa w))"
proof -
  have run: "detect pa w =
     (case detect_body pa (wtree w) of
        Inl e \<Rightarrow> (Inl e, w\<lparr>console := console w @ [DetectionFailed e]\<rparr>)
      | Inr project_info \<Rightarrow> (Inr project_info, w))"
    by (rule detect_run)
  have tree_kept: "wtree (snd (detect pa w)) = wtree w"
    using run by (simp split: sum.splits)
  have result: "fst (detect pa v) = detect_body pa (wtree v)" for v
    by (simp add: detect_run split: sum.splits)
  have printed: "console (snd (detect pa w))
       = console w @ (case fst (detect pa w) of Inl e \<Rightarrow> [DetectionFailed e] | Inr p \<Rightarrow> [])"
    using run by (simp split: sum.splits)
  show ?thesis
    using tree_kept result printed by simp
qed

theorem detect_idempotent_witness:
  "fst (detect ''proj'' (snd (detect ''proj'' ts_react_world))) = Inr ts_react_profile
   \<and> wtree (snd (detect ''proj'' ts_react_world)) = ts_react_tree
   \<and> fst (detect ''proj'' \<lparr>wtree = ts_react_tree, console = [DetectionFailed TypeError]\<rparr>)
       = Inr ts_react_profile
   \<and> console (snd (detect ''proj'' \<lparr>wtree = malformed_tree, console = []\<rparr>))
       = [DetectionFailed AttributeError]
   \<and> fst (detect ''proj'' (snd (detect ''proj'' \<lparr>wtree = malformed_tree, console = []\<rparr>)))
       = Inl AttributeError"
  using detect_idempotent
          [of "''proj''" ts_react_world
              "\<lparr>wtree = ts_react_tree, console = [DetectionFailed TypeError]\<rparr>"]
        detect_idempotent [of "''proj''" "\<lparr>wtree = malformed_tree, console = []\<rparr>"]
        detect_ts_react detect_malformed
  by (simp add: ts_react_world_def)

section \<open>Fields detection never sets\<close>

text \<open>
  C9. Every profile that detection returns has an empty dependency list. Neither
  dependency threshold of the complexity score (more than 50, more than 20) is
  therefore met, and the recommendations for the profile contain none of type
  \<^verbatim>\<open>dependencies\<close>.
\<close>

theorem detect_dependencies_empty:
  assumes "fst (detect pa w) = Inr p"
  shows "dependencies p = []
         \<and> \<not> length (dependencies p) > 50 \<and> \<not> length (dependencies p) > 20
         \<and> list_all (\<lambda>r. rtype r \<noteq> ''dependencies'') (get_refactoring_recommendations p)"
  using assms detect_body_fields(1) [of pa "wtree w" p]
  by (simp add: detect_fst get_refactoring_recommendations_def)

theorem detect_dependencies_empty_witness:
  "fst (detect ''proj'' ts_react_world) = Inr ts_react_profile
   \<and> dependencies ts_react_profile = []
   \<and> get_refactoring_recommendations ts_react_profile
       = [\<lparr>rtype = ''testing'', priority = ''high''\<rparr>]"
  using detect_dependencies_empty [OF detect_ts_react] detect_ts_react
  by (simp add: get_refactoring_recommendations_def ts_react_profile_def)

text \<open>
  C10. Every profile that detection returns has the structure flags \<^verbatim>\<open>layered\<close> and
  \<^verbatim>\<open>modular\<close> false: the analyzer starts them at false and sets only
  \<^verbatim>\<open>monorepo\<close>, \<^verbatim>\<open>microservices\<close> and \<^verbatim>\<open>dockerized\<close>.
\<close>

theorem detect_layered_modular_false:
  assumes "fst (detect pa w) = Inr p"
  shows "layered (struct p) = False \<and> modular (struct p) = False
         \<and> layered (analyze_structure t l) = False \<and> modular (analyze_structure t l) = False"
  using assms detect_body_fields(2) [of pa "wtree w" p]
  by (simp add: detect_fst analyze_structure_flags)

theorem detect_layered_modular_false_witness:
  "fst (detect ''proj'' ts_react_world) = Inr ts_react_profile
   \<and> layered (struct ts_react_profile) = False \<and> modular (struct ts_react_profile) = False"
  using detect_layered_modular_false [OF detect_ts_react] detect_ts_react
  by simp

section \<open>Trees that no rule recognises\<close>

lemma no_package_rule_parts:
  assumes "no_package_rule (Some pj)" and "truthy pj"
  shows "\<exists>a b nm kws all_deps.
           py_get pj ''dependencies'' (JObj []) = Inr a
         \<and> py_get pj ''devDependencies'' (JObj []) = Inr b
         \<and> py_get pj ''name'' JNull = Inr nm
         \<and> py_get pj ''keywords'' (JArr []) = Inr kws
         \<and> dict_merge_keys a b = Inr all_deps
         \<and> list_all (\<lambda>m. m \<notin> set all_deps) package_markers
         \<and> nm \<noteq> JStr ''express''
         \<and> py_in ''express'' kws = Inr False"
proof -
  let ?body = "\<lambda>pj. (case (py_get pj ''dependencies'' (JObj []), py_get pj ''devDependencies'' (JObj []),
                    py_get pj ''name'' JNull, py_get pj ''keywords'' (JArr [])) of
                (Inr a, Inr b, Inr nm, Inr kws) \<Rightarrow>
                  (case dict_merge_keys a b of
                     Inr all_deps \<Rightarrow>
                       list_all (\<lambda>m. m \<notin> set all_deps) package_markers
                       \<and> nm \<noteq> JStr ''express''
                       \<and> py_in ''express'' kws = Inr False
                   | Inl e \<Rightarrow> False)
              | _ \<Rightarrow> False)"
  have body: "?body pj" using assms by (simp add: no_package_rule_def)
  obtain a where a: "py_get pj ''dependencies'' (JObj []) = Inr a"
    using body by (cases "py_get pj ''dependencies'' (JObj [])") simp_all
  obtain b where b: "py_get pj ''devDependencies'' (JObj []) = Inr b"
    using body a by (cases "py_get pj ''devDependencies'' (JObj [])") simp_all
  obtain nm where nm: "py_get pj ''name'' JNull = Inr nm"
    using body a b by (cases "py_get pj ''name'' JNull") simp_all
  obtain kws where kws: "py_get pj ''keywords'' (JArr []) = Inr kws"
    using body a b nm by (cases "py_get pj ''keywords'' (JArr [])") simp_all
  obtain all_deps where ad: "dict_merge_keys a b = Inr all_deps"
    using body a b nm kws by (cases "dict_merge_keys a b") simp_all
  show ?thesis using body a b nm kws ad by simp
qed

lemma no_markers:
  assumes "list_all (\<lambda>m. m \<notin> set all_deps) package_markers"
  shows "''typescript'' \<notin> set all_deps" "''ts-node'' \<notin> set all_deps"
    "''react-native'' \<notin> set all_deps" "''react'' \<notin> set all_deps"
    "''react-dom'' \<notin> set all_deps" "''vue'' \<notin> set all_deps"
    "''@vue/cli-service'' \<notin> set all_deps" "''@angular/core'' \<notin> set all_deps"
    "''@angular/cli'' \<notin> set all_deps" "''express'' \<notin> set all_deps"
    "''koa'' \<notin> set all_deps" "''fastify'' \<notin> set all_deps" "''nestjs'' \<notin> set all_deps"
  using assms by (simp_all add: package_markers_def)

lemma no_package_rule_falls_through:
  assumes "no_package_rule (package_json t)"
  shows "(if truthy_json (package_json t)
          then classify_package_json (the (package_json t)) else Inr None) = Inr None"
proof (cases "package_json t")
  case None
  then show ?thesis by (simp add: truthy_json_def)
next
  case (Some pj)
  show ?thesis
  proof (cases "truthy pj")
    case False
    then show ?thesis using Some by (simp add: truthy_json_def)
  next
    case True
    obtain a b nm kws all_deps where h:
      "py_get pj ''dependencies'' (JObj []) = Inr a"
      "py_get pj ''devDependencies'' (JObj []) = Inr b"
      "py_get pj ''name'' JNull = Inr nm"
      "py_get pj ''keywords'' (JArr []) = Inr kws"
      "dict_merge_keys a b = Inr all_deps"
      "list_all (\<lambda>m. m \<notin> set all_deps) package_markers"
      "nm \<noteq> JStr ''express''"
      "py_in ''express'' kws = Inr False"
      using no_package_rule_parts[of pj] assms Some True by auto
    have "classify_package_json pj = Inr None"
      unfolding classify_package_json_def
      using h(1-5,7,8) no_markers[OF h(6)] by simp
    then show ?thesis using Some True by (simp add: truthy_json_def)
  qed
qed

lemma no_rule_unknown:
  assumes "no_rule_matches t"
  shows "detect_language_and_framework t = Inr \<lparr>language = ''unknown'', framework = None, ptype = ''unknown''\<rparr>"
proof -
  have a: "no_package_rule (package_json t)" using assms by (simp add: no_rule_matches_def)
  have b: "detect_other_manifests t = Inr \<lparr>language = ''unknown'', framework = None, ptype = ''unknown''\<rparr>"
    using assms by (simp add: no_rule_matches_def detect_other_manifests_def manifest_patterns_def)
  show ?thesis
    using no_package_rule_falls_through[OF a] b
    by (simp add: detect_language_and_framework_def)
qed

lemma unknown_language_steps:
  assumes "language q = ''unknown''"
  shows "get_language_setup_steps q = []" "get_dependency_install_steps q = []"
    "get_test_steps q = []" "get_build_steps q = []"
  using assms
  by (simp_all add: get_language_setup_steps_def get_dependency_install_steps_def get_test_steps_def get_build_steps_def Let_def)

lemma classify_language:
  assumes "classify_package_json pj = Inr (Some d)"
  shows "language d \<noteq> ''unknown''"
proof -
  obtain a where a: "py_get pj ''dependencies'' (JObj []) = Inr a"
    using assms by (cases "py_get pj ''dependencies'' (JObj [])") (simp_all add: classify_package_json_def)
  obtain b where b: "py_get pj ''devDependencies'' (JObj []) = Inr b"
    using assms a by (cases "py_get pj ''devDependencies'' (JObj [])") (simp_all add: classify_package_json_def)
  obtain ks where ks: "dict_merge_keys a b = Inr ks"
    using assms a b by (cases "dict_merge_keys a b") (simp_all add: classify_package_json_def)
  show ?thesis
    using assms a b ks
    by (auto simp add: classify_package_json_def split: if_splits sum.splits)
qed

lemma classify_none:
  assumes "classify_package_json pj = Inr None"
  shows "no_package_rule (Some pj)"
proof -
  obtain a where a: "py_get pj ''dependencies'' (JObj []) = Inr a"
    using assms by (cases "py_get pj ''dependencies'' (JObj [])") (simp_all add: classify_package_json_def)
  obtain b where b: "py_get pj ''devDependencies'' (JObj []) = Inr b"
    using assms a by (cases "py_get pj ''devDependencies'' (JObj [])") (simp_all add: classify_package_json_def)
  obtain ks where ks: "dict_merge_keys a b = Inr ks"
    using assms a b by (cases "dict_merge_keys a b") (simp_all add: classify_package_json_def)
  have rest: "list_all (\<lambda>m. m \<notin> set ks) package_markers
     \<and> (\<exists>nm kws. py_get pj ''name'' JNull = Inr nm \<and> nm \<noteq> JStr ''express''
           \<and> py_get pj ''keywords'' (JArr []) = Inr kws \<and> py_in ''express'' kws = Inr False)"
    using assms a b ks
    by (auto simp add: classify_package_json_def package_markers_def split: if_splits sum.splits)
  then show ?thesis
    using a b ks by (auto simp add: no_package_rule_def)
qed

lemma other_unknown:
  assumes "detect_other_manifests t = Inr \<lparr>language = ''unknown'', framework = None, ptype = ''unknown''\<rparr>"
  shows "\<not> truthy_lines (requirements_txt t) \<and> \<not> truthy_str (pom_xml t)
      \<and> \<not> truthy_str (go_mod t) \<and> \<not> truthy_str (csproj t)
      \<and> \<not> truthy_json (composer_json t)
      \<and> list_all (\<lambda>pattern. \<not> file_exists t pattern) manifest_patterns"
  using assms
  by (simp add: detect_other_manifests_def manifest_patterns_def split: if_splits sum.splits)


lemma other_language_unknown:
  assumes "detect_other_manifests t = Inr d" and "language d = ''unknown''"
  shows "d = \<lparr>language = ''unknown'', framework = None, ptype = ''unknown''\<rparr>"
  using assms
  by (auto simp add: detect_other_manifests_def split: if_splits sum.splits)

lemma language_unknown_fallback:
  assumes "detect_language_and_framework t = Inr d" and "language d = ''unknown''"
  shows "d = \<lparr>language = ''unknown'', framework = None, ptype = ''unknown''\<rparr>"
proof -
  let ?r = "if truthy_json (package_json t)
            then classify_package_json (the (package_json t)) else Inr None"
  show ?thesis
  proof (cases ?r)
    case (Inl e)
    then show ?thesis using assms(1) by (simp add: detect_language_and_framework_def)
  next
    case (Inr od)
    show ?thesis
    proof (cases od)
      case None
      then have "detect_other_manifests t = Inr d"
        using assms(1) Inr by (simp add: detect_language_and_framework_def)
      then show ?thesis using assms(2) by (rule other_language_unknown)
    next
      case (Some d')
      then have "truthy_json (package_json t)" using Inr by (auto split: if_splits)
      then have c: "classify_package_json (the (package_json t)) = Inr (Some d')"
        using Inr Some by simp
      have "d' = d" using assms(1) Inr Some by (simp add: detect_language_and_framework_def)
      then show ?thesis using classify_language [OF c] assms(2) by simp
    qed
  qed
qed

lemma fallback_no_rule:
  assumes u: "detect_language_and_framework t =
                Inr \<lparr>language = ''unknown'', framework = None, ptype = ''unknown''\<rparr>"
  shows "no_rule_matches t"
proof -
  let ?r = "if truthy_json (package_json t)
            then classify_package_json (the (package_json t)) else Inr None"
  have r: "?r = Inr None"
  proof (cases ?r)
    case (Inl e)
    then show ?thesis using u by (simp add: detect_language_and_framework_def)
  next
    case (Inr od)
    show ?thesis
    proof (cases od)
      case None
      then show ?thesis using Inr by simp
    next
      case (Some d)
      then have "truthy_json (package_json t)" using Inr by (auto split: if_splits)
      then have c: "classify_package_json (the (package_json t)) = Inr (Some d)"
        using Inr Some by simp
      have "d = \<lparr>language = ''unknown'', framework = None, ptype = ''unknown''\<rparr>"
        using u Inr Some by (simp add: detect_language_and_framework_def)
      then show ?thesis using classify_language [OF c] by simp
    qed
  qed
  have pk: "no_package_rule (package_json t)"
  proof (cases "package_json t")
    case None
    then show ?thesis by (simp add: no_package_rule_def)
  next
    case (Some pj)
    show ?thesis
    proof (cases "truthy pj")
      case True
      then have "classify_package_json pj = Inr None"
        using r Some by (simp add: truthy_json_def)
      then show ?thesis using Some classify_none by simp
    next
      case False
      then show ?thesis using Some by (simp add: no_package_rule_def)
    qed
  qed
  have "detect_other_manifests t =
          Inr \<lparr>language = ''unknown'', framework = None, ptype = ''unknown''\<rparr>"
    using u r by (simp add: detect_language_and_framework_def)
  from other_unknown [OF this] pk show ?thesis
    by (simp add: no_rule_matches_def)
qed

lemma detect_body_detection:
  assumes "detect_body pa t = Inr p"
  shows "detect_language_and_framework t =
           Inr \<lparr>language = language p, framework = framework p, ptype = ptype p\<rparr>"
  using assms by (auto simp add: detect_body_def Let_def split: sum.splits)

text \<open>
  C2, as the code has it. Detection returns a profile of language \<^verbatim>\<open>unknown\<close>
  exactly on the trees where no rule of the decision list applies and the
  classification does not raise: \<^verbatim>\<open>package.json\<close> is missing, unparsable or parses
  to a false value, or it is an object whose two dependency tables are objects naming
  none of the markers, whose name is not \<^verbatim>\<open>express\<close> and whose keywords are a list,
  string or object without \<^verbatim>\<open>express\<close>; the other manifests are missing or empty;
  and none of the manifest patterns finds an entry. On those trees the type is
  \<^verbatim>\<open>unknown\<close> and the framework is \<^verbatim>\<open>None\<close>, not the string \<^verbatim>\<open>unknown\<close>. For that
  profile, and for any profile whose language is \<^verbatim>\<open>unknown\<close>, the setup, install,
  test and build queries of the step catalog return the empty list.
\<close>

theorem unknown_tree_classification:
  "(no_rule_matches (wtree w) \<longleftrightarrow> (\<exists>p. fst (detect pa w) = Inr p \<and> language p = ''unknown''))
   \<and> (fst (detect pa w) = Inr p \<and> language p = ''unknown'' \<longrightarrow>
        framework p = None \<and> ptype p = ''unknown''
        \<and> get_language_setup_steps p = [] \<and> get_dependency_install_steps p = []
        \<and> get_test_steps p = [] \<and> get_build_steps p = [])
   \<and> (language q = ''unknown'' \<longrightarrow>
        get_language_setup_steps q = [] \<and> get_dependency_install_steps q = []
        \<and> get_test_steps q = [] \<and> get_build_steps q = [])"
proof -
  have fields: "framework p' = None \<and> ptype p' = ''unknown'' \<and> no_rule_matches (wtree w)"
    if "fst (detect pa w) = Inr p'" and "language p' = ''unknown''" for p'
  proof -
    have d: "detect_language_and_framework (wtree w) =
               Inr \<lparr>language = language p', framework = framework p', ptype = ptype p'\<rparr>"
      using that(1) detect_body_detection by (simp add: detect_fst)
    have e: "\<lparr>language = language p', framework = framework p', ptype = ptype p'\<rparr> =
               \<lparr>language = ''unknown'', framework = None, ptype = ''unknown''\<rparr>"
      using language_unknown_fallback [OF d] that(2) by simp
    from d e have "no_rule_matches (wtree w)" using fallback_no_rule by simp
    then show ?thesis using e by simp
  qed
  have forward: "\<exists>p. fst (detect pa w) = Inr p \<and> language p = ''unknown''"
    if "no_rule_matches (wtree w)"
    using no_rule_unknown [OF that] by (simp add: detect_fst detect_body_def Let_def)
  show ?thesis
    using fields forward unknown_language_steps [of p] unknown_language_steps [of q]
    by blast
qed

theorem unknown_tree_classification_witness:
  "no_rule_matches empty_tree
   \<and> (\<exists>p. fst (detect ''proj'' \<lparr>wtree = empty_tree, console = []\<rparr>) = Inr p
           \<and> language p = ''unknown'' \<and> framework p = None \<and> ptype p = ''unknown''
           \<and> get_language_setup_steps p = [] \<and> get_dependency_install_steps p = []
           \<and> get_test_steps p = [] \<and> get_build_steps p = [])"
proof -
  have h: "no_rule_matches (wtree \<lparr>wtree = empty_tree, console = []\<rparr>)"
    by (simp add: no_rule_matches_def no_package_rule_def empty_tree_def truthy_lines_def
        truthy_str_def truthy_json_def manifest_patterns_def file_exists_def)
  then obtain p where p: "fst (detect ''proj'' \<lparr>wtree = empty_tree, console = []\<rparr>) = Inr p"
      "language p = ''unknown''"
    using unknown_tree_classification [of "\<lparr>wtree = empty_tree, console = []\<rparr>" "''proj''"] by blast
  show ?thesis
    using h p unknown_tree_classification [of "\<lparr>wtree = empty_tree, console = []\<rparr>" "''proj''" p] by auto
qed

text \<open>
  C2 as stated fails on the empty directory: the framework of the returned profile is
  not the string \<^verbatim>\<open>unknown\<close>.
\<close>

theorem unknown_tree_framework_counterexample:
  "\<not> (language (projr (fst (detect ''proj'' \<lparr>wtree = empty_tree, console = []\<rparr>))) = ''unknown''
      \<and> framework (projr (fst (detect ''proj'' \<lparr>wtree = empty_tree, console = []\<rparr>)))
          = Some ''unknown''
      \<and> ptype (projr (fst (detect ''proj'' \<lparr>wtree = empty_tree, console = []\<rparr>))) = ''unknown'')"
  by (simp add: detect_run detect_body_def detect_language_and_framework_def
      detect_other_manifests_def empty_tree_def truthy_json_def truthy_str_def
      truthy_lines_def file_exists_def Let_def)

section \<open>The deploy stage\<close>

lemma str_lower_names:
  "str_lower ''build'' = ''build''" "str_lower ''test'' = ''test''"
  "str_lower ''deploy'' = ''deploy''"
  "str_lower ''Build'' = ''build''" "str_lower ''Test'' = ''test''"
  by code_simp+

lemma github_stage_names:
  "stage_names ''github-actions'' (content (generate_github_actions p cfg)) =
     (if deployment_enabled cfg then [''build'', ''deploy''] else [''build''])"
  by (simp add: stage_names_def generate_github_actions_def Let_def)

lemma gitlab_stage_names:
  "stage_names ''gitlab-ci'' (content (generate_gitlab_ci p cfg)) =
     (if deployment_enabled cfg then [''build'', ''test'', ''deploy'']
      else [''build'', ''test''])"
  by (simp add: stage_names_def generate_gitlab_ci_def Let_def)

lemma jenkins_stage_names:
  "stage_names ''jenkins'' (content (generate_jenkins p cfg)) = [''Build'', ''Test'']"
  by (simp add: stage_names_def generate_jenkins_def generate_jenkins_stages_def)

text \<open>
  C3, as the code has it. The \<^verbatim>\<open>github-actions\<close> and \<^verbatim>\<open>gitlab-ci\<close> documents have a
  deploy job exactly when \<^verbatim>\<open>deployment.enabled\<close> is true. The \<^verbatim>\<open>jenkins\<close> document
  always has the two stages Build and Test and never a deploy stage: that template
  does not read the configuration.
\<close>

theorem deploy_stage_iff_enabled:
  "(has_deploy_stage ''github-actions'' (content (generate_github_actions p cfg))
      \<longleftrightarrow> deployment_enabled cfg)
   \<and> (has_deploy_stage ''gitlab-ci'' (content (generate_gitlab_ci p cfg))
      \<longleftrightarrow> deployment_enabled cfg)
   \<and> stage_names ''jenkins'' (content (generate_jenkins p cfg)) = [''Build'', ''Test'']
   \<and> \<not> has_deploy_stage ''jenkins'' (content (generate_jenkins p cfg))"
  by (simp add: has_deploy_stage_def github_stage_names gitlab_stage_names
      jenkins_stage_names str_lower_names)

theorem deploy_stage_iff_enabled_witness:
  "deployment_enabled (deploy_config ''github-actions'' None None)
   \<and> has_deploy_stage ''github-actions''
        (content (generate_github_actions python_untested
                    (deploy_config ''github-actions'' None None)))
   \<and> has_deploy_stage ''gitlab-ci''
        (content (generate_gitlab_ci python_untested
                    (deploy_config ''github-actions'' None None)))
   \<and> \<not> has_deploy_stage ''jenkins''
        (content (generate_jenkins python_untested
                    (deploy_config ''github-actions'' None None)))"
  using deploy_stage_iff_enabled
          [of python_untested "deploy_config ''github-actions'' None None"]
  by (simp add: deployment_enabled_def deploy_config_def)

text \<open>
  C3 as stated fails for \<^verbatim>\<open>jenkins\<close>: with deployment enabled the document has no
  deploy stage.
\<close>

theorem jenkins_deploy_stage_counterexample:
  "\<not> (has_deploy_stage ''jenkins''
          (content (generate_jenkins python_untested (deploy_config ''jenkins'' None None)))
        \<longleftrightarrow> deployment_enabled (deploy_config ''jenkins'' None None))"
  by (simp add: has_deploy_stage_def jenkins_stage_names str_lower_names
      deployment_enabled_def deploy_config_def)

section \<open>Test steps\<close>

lemma name_not_test: "fw @ '' CI/CD'' \<notin> set test_invocations"
proof
  assume "fw @ '' CI/CD'' \<in> set test_invocations"
  then have "last (fw @ '' CI/CD'') \<in> last ` set test_invocations" by (rule imageI)
  then show False by (simp add: test_invocations_def)
qed

lemma setup_no_test:
  "s \<in> set (concat (map strings_of (get_language_setup_steps p))) \<Longrightarrow> s \<notin> set test_invocations"
  by (auto simp add: get_language_setup_steps_def test_invocations_def Let_def split: if_splits)

lemma install_no_test:
  "s \<in> set (concat (map strings_of (get_dependency_install_steps p))) \<Longrightarrow> s \<notin> set test_invocations"
  by (auto simp add: get_dependency_install_steps_def test_invocations_def Let_def split: if_splits)

lemma build_no_test:
  "s \<in> set (concat (map strings_of (get_build_steps p))) \<Longrightarrow> s \<notin> set test_invocations"
  by (auto simp add: get_build_steps_def test_invocations_def Let_def split: if_splits)

lemma docker_build_no_test:
  "s \<in> set (concat (map strings_of (get_docker_build_steps p))) \<Longrightarrow> s \<notin> set test_invocations"
  by (auto simp add: get_docker_build_steps_def test_invocations_def)

lemma deploy_no_test:
  "s \<in> set (concat (map strings_of (generate_deploy_steps p cfg))) \<Longrightarrow> s \<notin> set test_invocations"
  by (auto simp add: generate_deploy_steps_def get_docker_deploy_steps_def get_kubernetes_deploy_steps_def
       test_invocations_def Let_def split: if_splits)

lemma build_steps_strings:
  assumes "\<not> testing p"
  shows "set (concat (map strings_of (generate_build_steps p cfg))) \<subseteq>
     {''Checkout'', ''actions/checkout@v4''}
     \<union> set (concat (map strings_of (get_language_setup_steps p)))
     \<union> set (concat (map strings_of (get_dependency_install_steps p)))
     \<union> set (concat (map strings_of (get_build_steps p)))
     \<union> set (concat (map strings_of (get_docker_build_steps p)))"
  using assms unfolding generate_build_steps_def
  by (cases "dockerized (struct p)") auto

lemma build_steps_no_test:
  assumes "\<not> testing p" and "s \<in> set (concat (map strings_of (generate_build_steps p cfg)))"
  shows "s \<notin> set test_invocations"
proof -
  from assms(2) build_steps_strings[OF assms(1), of cfg]
  consider "s \<in> {''Checkout'', ''actions/checkout@v4''}"
    | "s \<in> set (concat (map strings_of (get_language_setup_steps p)))"
    | "s \<in> set (concat (map strings_of (get_dependency_install_steps p)))"
    | "s \<in> set (concat (map strings_of (get_build_steps p)))"
    | "s \<in> set (concat (map strings_of (get_docker_build_steps p)))"
    by blast
  then show ?thesis
  proof cases
    case 1 then show ?thesis by (auto simp add: test_invocations_def)
  next
    case 2 then show ?thesis by (rule setup_no_test)
  next
    case 3 then show ?thesis by (rule install_no_test)
  next
    case 4 then show ?thesis by (rule build_no_test)
  next
    case 5 then show ?thesis by (rule docker_build_no_test)
  qed
qed

lemma github_strings:
  "set (strings_of (content (generate_github_actions p cfg))) \<subseteq>
     {py_str (framework p) @ '' CI/CD'', ''main'', ''master'', ''develop'', ''ubuntu-latest'', ''build'',
      ''github.ref == 'refs/heads/main' && github.event_name == 'push'' @ [CHR 0x27]}
     \<union> set (concat (map strings_of (generate_build_steps p cfg)))
     \<union> set (concat (map strings_of (generate_deploy_steps p cfg)))"
  by (auto simp add: generate_github_actions_def Let_def)

text \<open>
  C4, as the code has it. When the testing flag of the profile is false, the
  \<^verbatim>\<open>github-actions\<close> document and the \<^verbatim>\<open>jenkins\<close> document contain no test command
  anywhere.
\<close>

theorem no_test_steps_without_testing:
  assumes "\<not> testing p"
  shows "\<not> has_test_invocation (content (generate_github_actions p cfg))
         \<and> \<not> has_test_invocation (content (generate_jenkins p cfg))"
proof -
  have "s \<notin> set test_invocations"
    if "s \<in> set (strings_of (content (generate_github_actions p cfg)))" for s
  proof -
    from that github_strings [of p cfg]
    consider "s = py_str (framework p) @ '' CI/CD''"
      | "s \<in> {''main'', ''master'', ''develop'', ''ubuntu-latest'', ''build'',
              ''github.ref == 'refs/heads/main' && github.event_name == 'push'' @ [CHR 0x27]}"
      | "s \<in> set (concat (map strings_of (generate_build_steps p cfg)))"
      | "s \<in> set (concat (map strings_of (generate_deploy_steps p cfg)))"
      by blast
    then show ?thesis
    proof cases
      case 1
      then show ?thesis using name_not_test by simp
    next
      case 2
      then show ?thesis by (auto simp add: test_invocations_def)
    next
      case 3
      then show ?thesis using build_steps_no_test [OF assms] by blast
    next
      case 4
      then show ?thesis using deploy_no_test by blast
    qed
  qed
  then have g: "\<not> has_test_invocation (content (generate_github_actions p cfg))"
    by (auto simp add: has_test_invocation_def list_ex_iff)
  have j: "\<not> has_test_invocation (content (generate_jenkins p cfg))"
    by (simp add: has_test_invocation_def generate_jenkins_def generate_jenkins_stages_def
        get_jenkins_post_actions_def test_invocations_def)
  show ?thesis using g j by simp
qed

theorem no_test_steps_without_testing_witness:
  "\<not> testing python_untested
   \<and> \<not> has_test_invocation
         (content (generate_github_actions python_untested
                     (deploy_config ''github-actions'' (Some ''docker'') (Some ''svc''))))
   \<and> \<not> has_test_invocation
         (content (generate_jenkins python_untested
                     (deploy_config ''github-actions'' (Some ''docker'') (Some ''svc''))))"
proof -
  have h: "\<not> testing python_untested" by (simp add: python_untested_def)
  show ?thesis
    using h no_test_steps_without_testing
              [OF h, of "deploy_config ''github-actions'' (Some ''docker'') (Some ''svc'')"]
    by simp
qed

text \<open>
  C4 as stated fails for \<^verbatim>\<open>gitlab-ci\<close>: for a Python profile whose testing flag is
  false the document still runs \<^verbatim>\<open>python -m pytest\<close>.
\<close>

theorem gitlab_test_job_counterexample:
  "\<not> (\<not> testing python_untested \<longrightarrow>
        \<not> has_test_invocation
            (content (generate_gitlab_ci python_untested
                        (deploy_config ''gitlab-ci'' None None))))"
  by (simp add: python_untested_def has_test_invocation_def generate_gitlab_ci_def
      generate_gitlab_job_def get_gitlab_script_def get_gitlab_image_def
      get_gitlab_variables_def test_invocations_def Let_def deployment_enabled_def
      deploy_config_def)

section \<open>Deploy steps by strategy\<close>

lemma generate_github_content:
  assumes "cfg_platform cfg = None \<or> cfg_platform cfg = Some ''github-actions''"
    and "fst (generate p cfg fs) = Inr g"
  shows "content g = content (generate_github_actions p cfg)"
  using assms
  by (auto simp add: generate_def templates_def Let_def split: prod.splits sum.splits)

lemma github_deploy_job:
  assumes "deployment_enabled cfg"
  shows "workflow_deploy_steps (content (generate_github_actions p cfg))
           = Some (generate_deploy_steps p cfg)"
  using assms by (simp add: workflow_deploy_steps_def generate_github_actions_def Let_def)

lemma generate_deploy_steps_cases:
  "(cfg_deployment cfg = Some d \<and> strategy d = Some ''docker'' \<and> imageName d = Some n
      \<longrightarrow> generate_deploy_steps p cfg =
            [YDict [(''name'', YStr ''Build Docker image''),
                    (''run'', YStr (''docker build -t '' @ n @ '':${{ github.sha }} .''))],
             YDict [(''name'', YStr ''Push to registry''),
                    (''run'', YStr (''docker push '' @ n @ '':${{ github.sha }}''))]])
   \<and> (cfg_deployment cfg = Some d \<and> strategy d = Some ''docker'' \<and> imageName d = None
      \<longrightarrow> generate_deploy_steps p cfg =
            [YDict [(''name'', YStr ''Build Docker image''),
                    (''run'', YStr ''docker build -t myapp:${{ github.sha }} .'')],
             YDict [(''name'', YStr ''Push to registry''),
                    (''run'', YStr ''docker push myapp:${{ github.sha }}'')]])
   \<and> (cfg_deployment cfg = Some d \<and> strategy d = Some ''kubernetes''
      \<longrightarrow> generate_deploy_steps p cfg =
            [YDict [(''name'', YStr ''Deploy to Kubernetes''),
                    (''run'', YStr ''kubectl apply -f k8s/'')]])
   \<and> (cfg_deployment cfg = Some d \<and> strategy d \<noteq> Some ''docker''
      \<and> strategy d \<noteq> Some ''kubernetes''
      \<longrightarrow> generate_deploy_steps p cfg = [])"
  by (simp add: generate_deploy_steps_def deployment_strategy_def get_docker_deploy_steps_def
      get_kubernetes_deploy_steps_def Let_def)

lemma generate_sample:
  "fst (generate python_untested (deploy_config ''github-actions'' strat img) empty_fs)
     = Inr (projr (fst (generate python_untested
                          (deploy_config ''github-actions'' strat img) empty_fs)))"
  by (simp add: generate_def templates_def save_pipeline_def empty_fs_def deploy_config_def
      Let_def)

text \<open>
  C5, as the code has it. When the platform is \<^verbatim>\<open>github-actions\<close>, named or by
  default, deployment is enabled and generation succeeds, the deploy job of the
  generated workflow has, for strategy \<^verbatim>\<open>docker\<close> and image name \<^verbatim>\<open>svc\<close>, exactly two
  steps, a build and a push, both naming \<^verbatim>\<open>svc\<close>; for any image name the two commands
  name that image, and without an image name they use \<^verbatim>\<open>myapp\<close>. Strategy
  \<^verbatim>\<open>kubernetes\<close> gives the single step \<^verbatim>\<open>kubectl apply -f k8s/\<close>. Any other strategy,
  or none, gives a deploy job without steps.
\<close>

theorem github_deploy_steps_by_strategy:
  assumes "cfg_platform cfg = None \<or> cfg_platform cfg = Some ''github-actions''"
    and "cfg_deployment cfg = Some d" and "enabled d = Some True"
    and "fst (generate p cfg fs) = Inr g"
  shows "(strategy d = Some ''docker'' \<and> imageName d = Some ''svc'' \<longrightarrow>
            workflow_deploy_steps (content g) =
              Some [YDict [(''name'', YStr ''Build Docker image''),
                           (''run'', YStr ''docker build -t svc:${{ github.sha }} .'')],
                    YDict [(''name'', YStr ''Push to registry''),
                           (''run'', YStr ''docker push svc:${{ github.sha }}'')]]
            \<and> deploy_commands ''github-actions'' (content g) =
                Some [''docker build -t svc:${{ github.sha }} .'',
                      ''docker push svc:${{ github.sha }}'']
            \<and> length (the (deploy_commands ''github-actions'' (content g))) = 2
            \<and> names_image ''svc'' (the (deploy_commands ''github-actions'' (content g))))
         \<and> (strategy d = Some ''docker'' \<and> imageName d = Some n \<longrightarrow>
            deploy_commands ''github-actions'' (content g) =
                Some [''docker build -t '' @ n @ '':${{ github.sha }} .'',
                      ''docker push '' @ n @ '':${{ github.sha }}''])
         \<and> (strategy d = Some ''docker'' \<and> imageName d = None \<longrightarrow>
            deploy_commands ''github-actions'' (content g) =
                Some [''docker build -t myapp:${{ github.sha }} .'',
                      ''docker push myapp:${{ github.sha }}''])
         \<and> (strategy d = Some ''kubernetes'' \<longrightarrow>
            workflow_deploy_steps (content g) =
              Some [YDict [(''name'', YStr ''Deploy to Kubernetes''),
                           (''run'', YStr ''kubectl apply -f k8s/'')]]
            \<and> deploy_commands ''github-actions'' (content g) = Some [''kubectl apply -f k8s/''])
         \<and> (strategy d \<noteq> Some ''docker'' \<and> strategy d \<noteq> Some ''kubernetes'' \<longrightarrow>
            workflow_deploy_steps (content g) = Some []
            \<and> deploy_commands ''github-actions'' (content g) = Some [])"
proof -
  have en: "deployment_enabled cfg"
    using assms(2,3) by (simp add: deployment_enabled_def)
  have c: "content g = content (generate_github_actions p cfg)"
    using assms(1,4) by (rule generate_github_content)
  have w: "workflow_deploy_steps (content g) = Some (generate_deploy_steps p cfg)"
    using c github_deploy_job [OF en] by simp
  have dc: "deploy_commands ''github-actions'' (content g)
              = Some (map step_run (generate_deploy_steps p cfg))"
    using w by (simp add: deploy_commands_def)
  show ?thesis
    using w dc assms(2) generate_deploy_steps_cases [of cfg d _ p]
    by (auto simp add: step_run_def names_image_def)
qed

theorem github_deploy_steps_by_strategy_witness:
  "deploy_commands ''github-actions''
      (content (projr (fst (generate python_untested
         (deploy_config ''github-actions'' (Some ''docker'') (Some ''svc'')) empty_fs))))
     = Some [''docker build -t svc:${{ github.sha }} .'', ''docker push svc:${{ github.sha }}'']
   \<and> deploy_commands ''github-actions''
      (content (projr (fst (generate python_untested
         (deploy_config ''github-actions'' (Some ''docker'') None) empty_fs))))
     = Some [''docker build -t myapp:${{ github.sha }} .'',
             ''docker push myapp:${{ github.sha }}'']
   \<and> deploy_commands ''github-actions''
      (content (projr (fst (generate python_untested
         (deploy_config ''github-actions'' (Some ''kubernetes'') None) empty_fs))))
     = Some [''kubectl apply -f k8s/'']
   \<and> deploy_commands ''github-actions''
      (content (projr (fst (generate python_untested
         (deploy_config ''github-actions'' (Some ''helm'') None) empty_fs))))
     = Some []
   \<and> deploy_commands ''github-actions''
      (content (projr (fst (generate python_untested
         (deploy_config ''github-actions'' None None) empty_fs))))
     = Some []"
  using github_deploy_steps_by_strategy [OF _ _ _ generate_sample [of "Some ''docker''" "Some ''svc''"],
            of "\<lparr>enabled = Some True, strategy = Some ''docker'', imageName = Some ''svc''\<rparr>"]
        github_deploy_steps_by_strategy [OF _ _ _ generate_sample [of "Some ''docker''" None],
            of "\<lparr>enabled = Some True, strategy = Some ''docker'', imageName = None\<rparr>"]
        github_deploy_steps_by_strategy [OF _ _ _ generate_sample [of "Some ''kubernetes''" None],
            of "\<lparr>enabled = Some True, strategy = Some ''kubernetes'', imageName = None\<rparr>"]
        github_deploy_steps_by_strategy [OF _ _ _ generate_sample [of "Some ''helm''" None],
            of "\<lparr>enabled = Some True, strategy = Some ''helm'', imageName = None\<rparr>"]
        github_deploy_steps_by_strategy [OF _ _ _ generate_sample [of None None],
            of "\<lparr>enabled = Some True, strategy = None, imageName = None\<rparr>"]
  by (simp add: deploy_config_def)

text \<open>
  C5 as stated fails for \<^verbatim>\<open>gitlab-ci\<close>: with deployment enabled, strategy \<^verbatim>\<open>docker\<close>
  and image name \<^verbatim>\<open>svc\<close> the deploy job of the generated document has a single fixed
  command, which does not mention \<^verbatim>\<open>svc\<close>.
\<close>

theorem gitlab_deploy_steps_counterexample:
  "\<not> (length (the (deploy_commands ''gitlab-ci''
         (content (projr (fst (generate python_untested
            (deploy_config ''gitlab-ci'' (Some ''docker'') (Some ''svc'')) empty_fs)))))) = 2
      \<and> names_image ''svc'' (the (deploy_commands ''gitlab-ci''
         (content (projr (fst (generate python_untested
            (deploy_config ''gitlab-ci'' (Some ''docker'') (Some ''svc'')) empty_fs)))))))"
  by (simp add: generate_def templates_def save_pipeline_def empty_fs_def deploy_config_def
      generate_gitlab_ci_def generate_gitlab_job_def get_gitlab_script_def
      deployment_enabled_def deploy_commands_def Let_def)

end
